theory Spec2Isabelle
  imports Main "HOL-Library.Word" "HOL-Library.Signed_Division"
begin

section \<open>The TCP control channel\<close>

text \<open>
  The C layer (\<^verbatim>\<open>rdma_operations.c\<close>) talks to its peer over a connected TCP socket
  with the system calls \<^verbatim>\<open>write\<close> and \<^verbatim>\<open>read\<close>. The kernel's side of the socket is a
  script: what each successive \<^verbatim>\<open>write\<close> call accepts and what each successive
  \<^verbatim>\<open>read\<close> call delivers. A call on an exhausted script blocks for ever, which the
  model renders as \<open>None\<close> (the call does not return). A data event carries the
  bytes that have arrived, at least one; a \<^verbatim>\<open>read\<close> takes as many of them as it asked
  for and leaves the rest. An end of stream stays at the head of the script: every
  later \<^verbatim>\<open>read\<close> returns 0 again.
\<close>

type_synonym byte = "8 word"

datatype rd_event = RdData "byte list" | RdErr | RdEof

datatype wr_event = WrAccept nat | WrErr

record socket =
  rx :: "rd_event list"
  tx :: "wr_event list"
  sent :: "byte list"

definition sock_write :: "socket \<Rightarrow> byte list \<Rightarrow> (int \<times> socket) option" where
  "sock_write s bs =
     (case tx s of
        [] \<Rightarrow> None
      | WrErr # es \<Rightarrow> Some (- 1, s\<lparr>tx := es\<rparr>)
      | WrAccept n # es \<Rightarrow>
          Some (int (min n (length bs)), s\<lparr>tx := es, sent := sent s @ take n bs\<rparr>))"

definition sock_read :: "socket \<Rightarrow> nat \<Rightarrow> (int \<times> byte list \<times> socket) option" where
  "sock_read s count =
     (case rx s of
        [] \<Rightarrow> None
      | RdErr # es \<Rightarrow> Some (- 1, [], s\<lparr>rx := es\<rparr>)
      | RdEof # es \<Rightarrow> Some (0, [], s)
      | RdData bs # es \<Rightarrow>
          (if length bs \<le> count then Some (int (length bs), bs, s\<lparr>rx := es\<rparr>)
           else Some (int count, take count bs, s\<lparr>rx := RdData (drop count bs) # es\<rparr>)))"

text \<open>
  \<^verbatim>\<open>read(sock, remote_data, xfer_size)\<close> stores what it received at the address it was
  given, which in \<^verbatim>\<open>sock_sync_data\<close> is always the start of the output block.
\<close>

definition overwrite_at0 :: "byte list \<Rightarrow> byte list \<Rightarrow> byte list" where
  "overwrite_at0 chunk block = chunk @ drop (length chunk) block"

text \<open>
  The receive loop of \<^verbatim>\<open>sock_sync_data\<close>:
  \<^verbatim>\<open>while (!rc && total_read_bytes < xfer_size) {
       read_bytes = read(sock, remote_data, xfer_size);
       if (read_bytes > 0) total_read_bytes += read_bytes; else rc = read_bytes; }\<close>
  The loop has no bound of its own, so it is a partial function: \<open>None\<close> is a call that
  never returns.
\<close>

partial_function (option) recv_loop ::
  "socket \<Rightarrow> int \<Rightarrow> int \<Rightarrow> int \<Rightarrow> byte list \<Rightarrow> (int \<times> byte list \<times> socket) option" where
  "recv_loop s xfer_size rc total_read_bytes remote_data =
     (if rc = 0 \<and> total_read_bytes < xfer_size then
        (case sock_read s (nat xfer_size) of
           None \<Rightarrow> None
         | Some (read_bytes, chunk, s') \<Rightarrow>
             (if read_bytes > 0
              then recv_loop s' xfer_size rc (total_read_bytes + read_bytes)
                     (overwrite_at0 chunk remote_data)
              else recv_loop s' xfer_size read_bytes total_read_bytes remote_data))
      else Some (rc, remote_data, s))"

declare recv_loop.simps [code]

text \<open>
  \<^verbatim>\<open>sock_sync_data(sock, xfer_size, local_data, remote_data)\<close>: one \<^verbatim>\<open>write\<close> of the
  local block, \<^verbatim>\<open>rc\<close> keeps the byte count when it is short and becomes 0 otherwise,
  then the receive loop. The result is the return code, the output block and the socket.
\<close>

definition sock_sync_data ::
  "socket \<Rightarrow> int \<Rightarrow> byte list \<Rightarrow> byte list \<Rightarrow> (int \<times> byte list \<times> socket) option" where
  "sock_sync_data s xfer_size local_data remote_data =
     (case sock_write s (take (nat xfer_size) local_data) of
        None \<Rightarrow> None
      | Some (rc, s1) \<Rightarrow>
          recv_loop s1 xfer_size (if rc < xfer_size then rc else 0) 0 remote_data)"

text \<open>
  A delivery of the awaited bytes as a sequence of chunks, one per \<^verbatim>\<open>read\<close>: the count
  \<open>t\<close> received so far is below \<open>n\<close> before each chunk and has reached \<open>n\<close> after the
  last one.
\<close>

fun in_reads :: "nat \<Rightarrow> nat \<Rightarrow> byte list list \<Rightarrow> bool" where
  "in_reads n t [] = (n \<le> t)"
| "in_reads n t (c # cs) = (t < n \<and> c \<noteq> [] \<and> length c \<le> n \<and> in_reads n (t + length c) cs)"

section \<open>Byte order and the connection descriptor\<close>

text \<open>
  The header selects \<^verbatim>\<open>htonll\<close>/\<^verbatim>\<open>ntohll\<close> by the host's \<^verbatim>\<open>__BYTE_ORDER\<close>: a byte swap
  (\<^verbatim>\<open>bswap_64\<close>) on a little-endian host, the identity on a big-endian one. The libc
  functions \<^verbatim>\<open>htonl\<close>, \<^verbatim>\<open>ntohl\<close>, \<^verbatim>\<open>htons\<close> and \<^verbatim>\<open>ntohs\<close> do the same at 32 and 16
  bits. The host's byte order is a parameter of the model.
\<close>

datatype byte_order = LittleEndian | BigEndian

fun le_bytes :: "nat \<Rightarrow> int \<Rightarrow> byte list" where
  "le_bytes 0 v = []"
| "le_bytes (Suc k) v = word_of_int (v mod 256) # le_bytes k (v div 256)"

fun le_word :: "byte list \<Rightarrow> 'a::len word" where
  "le_word [] = 0"
| "le_word (b # bs) = ucast b + 256 * le_word bs"

text \<open>
  The bytes an integer object occupies in memory, and the object read back. The
  function \<open>le_val\<close> is the number a byte sequence denotes, for the proofs.
\<close>

fun le_val :: "byte list \<Rightarrow> int" where
  "le_val [] = 0"
| "le_val (b # bs) = uint b + 256 * le_val bs"


definition store :: "byte_order \<Rightarrow> 'a::len word \<Rightarrow> byte list" where
  "store bo w =
     (case bo of
        LittleEndian \<Rightarrow> le_bytes (LENGTH('a) div 8) (uint w)
      | BigEndian \<Rightarrow> rev (le_bytes (LENGTH('a) div 8) (uint w)))"

definition load :: "byte_order \<Rightarrow> byte list \<Rightarrow> 'a::len word" where
  "load bo bs =
     (case bo of
        LittleEndian \<Rightarrow> le_word bs
      | BigEndian \<Rightarrow> le_word (rev bs))"

definition bswap :: "'a::len word \<Rightarrow> 'a word" where
  "bswap w = le_word (rev (le_bytes (LENGTH('a) div 8) (uint w)))"

definition htonll :: "byte_order \<Rightarrow> 64 word \<Rightarrow> 64 word" where
  "htonll bo x = (case bo of LittleEndian \<Rightarrow> bswap x | BigEndian \<Rightarrow> x)"

definition ntohll :: "byte_order \<Rightarrow> 64 word \<Rightarrow> 64 word" where
  "ntohll bo x = (case bo of LittleEndian \<Rightarrow> bswap x | BigEndian \<Rightarrow> x)"

definition htonl :: "byte_order \<Rightarrow> 32 word \<Rightarrow> 32 word" where
  "htonl bo x = (case bo of LittleEndian \<Rightarrow> bswap x | BigEndian \<Rightarrow> x)"

definition ntohl :: "byte_order \<Rightarrow> 32 word \<Rightarrow> 32 word" where
  "ntohl bo x = (case bo of LittleEndian \<Rightarrow> bswap x | BigEndian \<Rightarrow> x)"

definition htons :: "byte_order \<Rightarrow> 16 word \<Rightarrow> 16 word" where
  "htons bo x = (case bo of LittleEndian \<Rightarrow> bswap x | BigEndian \<Rightarrow> x)"

definition ntohs :: "byte_order \<Rightarrow> 16 word \<Rightarrow> 16 word" where
  "ntohs bo x = (case bo of LittleEndian \<Rightarrow> bswap x | BigEndian \<Rightarrow> x)"

text \<open>
  \<^verbatim>\<open>struct cm_con_data_t\<close>, packed: 8 + 4 + 4 + 2 + 16 = 34 bytes. The exchange sends
  the struct's memory image and receives the peer's into \<^verbatim>\<open>tmp_con_data\<close>.
\<close>

record cm_con_data_t =
  addr :: "64 word"
  rkey :: "32 word"
  qp_num :: "32 word"
  lid :: "16 word"
  gid :: "byte list"

definition con_data_image :: "byte_order \<Rightarrow> cm_con_data_t \<Rightarrow> byte list" where
  "con_data_image bo d =
     store bo (addr d) @ store bo (rkey d) @ store bo (qp_num d) @ store bo (lid d)
       @ take 16 (gid d)"

definition con_data_of_image :: "byte_order \<Rightarrow> byte list \<Rightarrow> cm_con_data_t" where
  "con_data_of_image bo bs =
     \<lparr>addr = load bo (take 8 bs),
      rkey = load bo (take 4 (drop 8 bs)),
      qp_num = load bo (take 4 (drop 12 bs)),
      lid = load bo (take 2 (drop 16 bs)),
      gid = take 16 (drop 18 bs)\<rparr>"

section \<open>Configuration, resources and the verbs objects\<close>

text \<open>
  A pointer that may be \<^verbatim>\<open>NULL\<close> is an option. The objects of the verbs library carry
  the fields the program reads: the keys of a memory region, the number of a queue
  pair, the local identifier of a port. Device context, protection domain and
  completion queue are opaque handles. Fields of library structs are prefixed where
  the program's own struct has a field of the same name.
\<close>

record config_t =
  dev_name :: "string option"
  server_name :: "string option"
  tcp_port :: "32 word"
  ib_port :: int
  gid_idx :: int

record ibv_mr =
  mr_addr :: "64 word"
  mr_length :: nat
  mr_lkey :: "32 word"
  mr_rkey :: "32 word"

record ibv_qp =
  qp_handle :: nat
  qp_qp_num :: "32 word"

record ibv_port_attr =
  port_lid :: "16 word"

record resources =
  port_attr :: ibv_port_attr
  remote_props :: cm_con_data_t
  ib_ctx :: "nat option"
  pd :: "nat option"
  cq :: "nat option"
  qp :: "ibv_qp option"
  mr :: "ibv_mr option"
  buf :: "64 word option"
  sock :: int

text \<open>\<^verbatim>\<open>(uintptr_t)p\<close>: the null pointer is the address 0.\<close>

definition ptr_val :: "64 word option \<Rightarrow> 64 word" where
  "ptr_val p = (case p of None \<Rightarrow> 0 | Some a \<Rightarrow> a)"

definition MSG :: string where
  "MSG = ''******************************************************************************/''"

definition MSG_SIZE :: nat where
  "MSG_SIZE = length MSG + 6"

definition MAX_POLL_CQ_TIMEOUT :: "64 word" where
  "MAX_POLL_CQ_TIMEOUT = 2000"

datatype ibv_access_flags = IBV_ACCESS_LOCAL_WRITE | IBV_ACCESS_REMOTE_WRITE | IBV_ACCESS_REMOTE_READ

datatype ibv_qp_state = IBV_QPS_RESET | IBV_QPS_INIT | IBV_QPS_RTR | IBV_QPS_RTS

datatype ibv_qp_attr_mask =
    IBV_QP_STATE | IBV_QP_ACCESS_FLAGS | IBV_QP_PKEY_INDEX | IBV_QP_PORT | IBV_QP_AV
  | IBV_QP_PATH_MTU | IBV_QP_TIMEOUT | IBV_QP_RETRY_CNT | IBV_QP_RNR_RETRY | IBV_QP_RQ_PSN
  | IBV_QP_MAX_QP_RD_ATOMIC | IBV_QP_MIN_RNR_TIMER | IBV_QP_SQ_PSN
  | IBV_QP_MAX_DEST_RD_ATOMIC | IBV_QP_DEST_QPN

datatype ibv_wr_opcode = IBV_WR_RDMA_WRITE | IBV_WR_SEND | IBV_WR_RDMA_READ

datatype ibv_send_flags = IBV_SEND_SIGNALED

definition IBV_MTU_256 :: nat where
  "IBV_MTU_256 = 1"

definition IBV_WC_SUCCESS :: int where
  "IBV_WC_SUCCESS = 0"

record ibv_global_route =
  dgid :: "byte list"
  flow_label :: "32 word"
  sgid_index :: "8 word"
  hop_limit :: "8 word"
  traffic_class :: "8 word"

record ibv_ah_attr =
  grh :: ibv_global_route
  dlid :: "16 word"
  sl :: "8 word"
  src_path_bits :: "8 word"
  is_global :: "8 word"
  ah_port_num :: "8 word"

record ibv_qp_attr =
  qp_state :: ibv_qp_state
  path_mtu :: nat
  rq_psn :: "32 word"
  sq_psn :: "32 word"
  dest_qp_num :: "32 word"
  qp_access_flags :: "ibv_access_flags set"
  ah_attr :: ibv_ah_attr
  pkey_index :: "16 word"
  max_rd_atomic :: "8 word"
  max_dest_rd_atomic :: "8 word"
  min_rnr_timer :: "8 word"
  port_num :: "8 word"
  timeout :: "8 word"
  retry_cnt :: "8 word"
  rnr_retry :: "8 word"

record ibv_sge =
  sge_addr :: "64 word"
  sge_length :: nat
  sge_lkey :: "32 word"

record ibv_send_wr =
  wr_id :: "64 word"
  sg_list :: "ibv_sge list"
  num_sge :: int
  opcode :: ibv_wr_opcode
  send_flags :: "ibv_send_flags set"
  rdma_remote_addr :: "64 word"
  rdma_rkey :: "32 word"

record ibv_recv_wr =
  rr_wr_id :: "64 word"
  rr_sg_list :: "ibv_sge list"
  rr_num_sge :: int

record ibv_wc =
  status :: int

text \<open>
  Every call into the socket layer, the allocator or the verbs library is logged, an
  acquiring call with the handle it returned. What such a call returns is an input of
  the model.
\<close>

datatype call =
    C_sock_connect int
  | C_get_device_list "string list option"
  | C_open_device "nat option"
  | C_free_device_list
  | C_query_port int
  | C_alloc_pd "nat option"
  | C_create_cq nat "nat option"
  | C_malloc nat "64 word option"
  | C_memset "64 word" nat
  | C_reg_mr "ibv_access_flags set" "ibv_mr option"
  | C_create_qp "ibv_qp option"
  | C_destroy_qp ibv_qp
  | C_dereg_mr ibv_mr
  | C_free "64 word"
  | C_destroy_cq nat
  | C_dealloc_pd nat
  | C_close_device nat
  | C_close int
  | C_query_gid int int
  | C_sock_sync_data int
  | C_modify_qp ibv_qp ibv_qp_attr "ibv_qp_attr_mask set"
  | C_post_recv ibv_qp ibv_recv_wr
  | C_post_send ibv_qp ibv_send_wr

section \<open>The queue-pair state machine\<close>

text \<open>\<^verbatim>\<open>memset(&attr, 0, sizeof(attr))\<close>.\<close>

definition zero_attr :: ibv_qp_attr where
  "zero_attr =
     \<lparr>qp_state = IBV_QPS_RESET, path_mtu = 0, rq_psn = 0, sq_psn = 0, dest_qp_num = 0,
      qp_access_flags = {},
      ah_attr = \<lparr>grh = \<lparr>dgid = replicate 16 0, flow_label = 0, sgid_index = 0,
                          hop_limit = 0, traffic_class = 0\<rparr>,
                 dlid = 0, sl = 0, src_path_bits = 0, is_global = 0, ah_port_num = 0\<rparr>,
      pkey_index = 0, max_rd_atomic = 0, max_dest_rd_atomic = 0, min_rnr_timer = 0,
      port_num = 0, timeout = 0, retry_cnt = 0, rnr_retry = 0\<rparr>"

text \<open>
  Each transition fills an attribute struct and calls \<^verbatim>\<open>ibv_modify_qp\<close>, whose
  return code \<open>ret\<close> is an input; the function returns that code.
\<close>

definition init_attr :: "config_t \<Rightarrow> ibv_qp_attr" where
  "init_attr cfg =
     zero_attr\<lparr>qp_state := IBV_QPS_INIT,
               port_num := word_of_int (ib_port cfg),
               pkey_index := 0,
               qp_access_flags :=
                 {IBV_ACCESS_LOCAL_WRITE, IBV_ACCESS_REMOTE_READ, IBV_ACCESS_REMOTE_WRITE}\<rparr>"

definition modify_qp_to_init :: "config_t \<Rightarrow> ibv_qp \<Rightarrow> int \<Rightarrow> int \<times> call list" where
  "modify_qp_to_init cfg q ret =
     (ret, [C_modify_qp q (init_attr cfg)
              {IBV_QP_STATE, IBV_QP_PKEY_INDEX, IBV_QP_PORT, IBV_QP_ACCESS_FLAGS}])"

definition rtr_attr :: "config_t \<Rightarrow> 32 word \<Rightarrow> 16 word \<Rightarrow> byte list \<Rightarrow> ibv_qp_attr" where
  "rtr_attr cfg remote_qpn dlid' dgid' =
     (let attr = zero_attr\<lparr>qp_state := IBV_QPS_RTR,
                            path_mtu := IBV_MTU_256,
                            dest_qp_num := remote_qpn,
                            rq_psn := 0,
                            max_dest_rd_atomic := 1,
                            min_rnr_timer := 0x12\<rparr>;
          ah = (ah_attr attr)\<lparr>is_global := 0, dlid := dlid', sl := 0, src_path_bits := 0,
                               ah_port_num := word_of_int (ib_port cfg)\<rparr>
      in if gid_idx cfg \<ge> 0
         then attr\<lparr>ah_attr :=
                ah\<lparr>is_global := 1,
                   ah_port_num := 1,
                   grh := (grh ah)\<lparr>dgid := take 16 dgid', flow_label := 0, hop_limit := 1,
                                    sgid_index := word_of_int (gid_idx cfg),
                                    traffic_class := 0\<rparr>\<rparr>\<rparr>
         else attr\<lparr>ah_attr := ah\<rparr>)"

definition modify_qp_to_rtr ::
  "config_t \<Rightarrow> ibv_qp \<Rightarrow> 32 word \<Rightarrow> 16 word \<Rightarrow> byte list \<Rightarrow> int \<Rightarrow> int \<times> call list" where
  "modify_qp_to_rtr cfg q remote_qpn dlid' dgid' ret =
     (ret, [C_modify_qp q (rtr_attr cfg remote_qpn dlid' dgid')
              {IBV_QP_STATE, IBV_QP_AV, IBV_QP_PATH_MTU, IBV_QP_DEST_QPN, IBV_QP_RQ_PSN,
               IBV_QP_MAX_DEST_RD_ATOMIC, IBV_QP_MIN_RNR_TIMER}])"

definition rts_attr :: ibv_qp_attr where
  "rts_attr =
     zero_attr\<lparr>qp_state := IBV_QPS_RTS, timeout := 0x12, retry_cnt := 6, rnr_retry := 0,
               sq_psn := 0, max_rd_atomic := 1\<rparr>"

definition modify_qp_to_rts :: "ibv_qp \<Rightarrow> int \<Rightarrow> int \<times> call list" where
  "modify_qp_to_rts q ret =
     (ret, [C_modify_qp q rts_attr
              {IBV_QP_STATE, IBV_QP_TIMEOUT, IBV_QP_RETRY_CNT, IBV_QP_RNR_RETRY, IBV_QP_SQ_PSN,
               IBV_QP_MAX_QP_RD_ATOMIC}])"

section \<open>Posting work requests\<close>

text \<open>
  \<^verbatim>\<open>post_receive\<close> and \<^verbatim>\<open>post_send\<close> describe the whole registered buffer in one
  scatter/gather entry. They read \<^verbatim>\<open>res->mr->lkey\<close> and hand \<^verbatim>\<open>res->qp\<close> to the library:
  in the model they take the memory region and the queue pair the caller has found
  non-null, and the address \<^verbatim>\<open>(uintptr_t)res->buf\<close>. The return code \<open>ret\<close> of the
  library call is an input.
\<close>

definition buf_sge :: "64 word \<Rightarrow> ibv_mr \<Rightarrow> ibv_sge" where
  "buf_sge b m = \<lparr>sge_addr = b, sge_length = MSG_SIZE, sge_lkey = mr_lkey m\<rparr>"

definition post_receive :: "64 word \<Rightarrow> ibv_mr \<Rightarrow> ibv_qp \<Rightarrow> int \<Rightarrow> int \<times> call list" where
  "post_receive b m q ret =
     (ret, [C_post_recv q \<lparr>rr_wr_id = 0, rr_sg_list = [buf_sge b m], rr_num_sge = 1\<rparr>])"

definition send_wr :: "resources \<Rightarrow> 64 word \<Rightarrow> ibv_mr \<Rightarrow> ibv_wr_opcode \<Rightarrow> ibv_send_wr" where
  "send_wr res b m opc =
     (let sr = \<lparr>wr_id = 0, sg_list = [buf_sge b m], num_sge = 1, opcode = opc,
                send_flags = {IBV_SEND_SIGNALED}, rdma_remote_addr = 0, rdma_rkey = 0\<rparr>
      in if opc \<noteq> IBV_WR_SEND
         then sr\<lparr>rdma_remote_addr := addr (remote_props res),
                 rdma_rkey := rkey (remote_props res)\<rparr>
         else sr)"

definition post_send ::
  "resources \<Rightarrow> 64 word \<Rightarrow> ibv_mr \<Rightarrow> ibv_qp \<Rightarrow> ibv_wr_opcode \<Rightarrow> int \<Rightarrow> int \<times> call list" where
  "post_send res b m q opc ret = (ret, [C_post_send q (send_wr res b m opc)])"

section \<open>Connection establishment\<close>

text \<open>
  What \<^verbatim>\<open>connect_qp\<close> gets from outside: the result of \<^verbatim>\<open>ibv_query_gid\<close> (return code
  and GID), the bytes its uninitialised locals \<^verbatim>\<open>tmp_con_data\<close> and \<^verbatim>\<open>temp_char\<close>
  happen to hold, and the return codes of the verbs calls.
\<close>

record connect_env =
  query_gid_result :: "int \<times> byte list"
  tmp_con_data_init :: "byte list"
  temp_char_init :: "byte list"
  modify_init_ret :: int
  post_recv_ret :: int
  modify_rtr_ret :: int
  modify_rts_ret :: int

text \<open>Lines 882 to 890: the local descriptor in network byte order.\<close>

definition local_con_data_of ::
  "byte_order \<Rightarrow> resources \<Rightarrow> 64 word \<Rightarrow> ibv_mr \<Rightarrow> ibv_qp \<Rightarrow> byte list \<Rightarrow> cm_con_data_t" where
  "local_con_data_of bo res b m q my_gid =
     \<lparr>addr = htonll bo b,
      rkey = htonl bo (mr_rkey m),
      qp_num = htonl bo (qp_qp_num q),
      lid = htons bo (port_lid (port_attr res)),
      gid = take 16 my_gid\<rparr>"

text \<open>Lines 902 to 908: the peer's descriptor back in host byte order.\<close>

definition remote_con_data_of :: "byte_order \<Rightarrow> cm_con_data_t \<Rightarrow> cm_con_data_t" where
  "remote_con_data_of bo tmp_con_data =
     \<lparr>addr = ntohll bo (addr tmp_con_data),
      rkey = ntohl bo (rkey tmp_con_data),
      qp_num = ntohl bo (qp_num tmp_con_data),
      lid = ntohs bo (lid tmp_con_data),
      gid = take 16 (gid tmp_con_data)\<rparr>"

text \<open>
  Lines 866 to 879: the GID is queried when a GID index is configured, and a failure
  of the query ends the call. The \<^verbatim>\<open>else\<close> has no braces and governs the \<^verbatim>\<open>fprintf\<close>
  alone, so the \<^verbatim>\<open>memset\<close> that follows clears \<^verbatim>\<open>my_gid\<close> on every path.
\<close>

definition my_gid_of :: "config_t \<Rightarrow> connect_env \<Rightarrow> byte list" where
  "my_gid_of cfg env =
     (let queried = (if gid_idx cfg \<ge> 0 then snd (query_gid_result env) else [])
      in replicate 16 0)"

text \<open>Lines 927 to 966: the three transitions, the receive request and the barrier.\<close>

definition connect_qp_states ::
  "config_t \<Rightarrow> connect_env \<Rightarrow> resources \<Rightarrow> 64 word \<Rightarrow> ibv_mr \<Rightarrow> ibv_qp \<Rightarrow> cm_con_data_t
     \<Rightarrow> socket \<Rightarrow> (int \<times> socket \<times> call list) option" where
  "connect_qp_states cfg env res b m q remote_con_data chan =
     (let (rc1, t1) = modify_qp_to_init cfg q (modify_init_ret env) in
      if rc1 \<noteq> 0 then Some (rc1, chan, t1)
      else
        let (rc2, t2) = (if server_name cfg \<noteq> None
                         then post_receive b m q (post_recv_ret env) else (rc1, [])) in
        if rc2 \<noteq> 0 then Some (rc2, chan, t1 @ t2)
        else
          let (rc3, t3) = modify_qp_to_rtr cfg q (qp_num remote_con_data)
                            (lid remote_con_data) (gid remote_con_data) (modify_rtr_ret env) in
          if rc3 \<noteq> 0 then Some (rc3, chan, t1 @ t2 @ t3)
          else
            let (rc4, t4) = modify_qp_to_rts q (modify_rts_ret env) in
            if rc4 \<noteq> 0 then Some (rc4, chan, t1 @ t2 @ t3 @ t4)
            else
              (case sock_sync_data chan 1 [0x51] (temp_char_init env) of
                 None \<Rightarrow> None
               | Some (rc5, temp_char, chan') \<Rightarrow>
                   Some (if rc5 \<noteq> 0 then 1 else rc4, chan',
                         t1 @ t2 @ t3 @ t4 @ [C_sock_sync_data 1])))"

text \<open>
  \<^verbatim>\<open>connect_qp(res)\<close>. After the GID query the function dereferences \<^verbatim>\<open>res->mr\<close> and
  \<^verbatim>\<open>res->qp\<close>: on a resource set without them the process dies there, which the model
  renders, like a call that blocks for ever, as \<open>None\<close>. The result is the return
  code, the resources, the socket and the calls made.
\<close>

definition connect_qp ::
  "byte_order \<Rightarrow> config_t \<Rightarrow> connect_env \<Rightarrow> resources \<Rightarrow> socket
     \<Rightarrow> (int \<times> resources \<times> socket \<times> call list) option" where
  "connect_qp bo cfg env res chan =
     (let t0 = (if gid_idx cfg \<ge> 0 then [C_query_gid (ib_port cfg) (gid_idx cfg)] else []) in
      if gid_idx cfg \<ge> 0 \<and> fst (query_gid_result env) \<noteq> 0
      then Some (fst (query_gid_result env), res, chan, t0)
      else
        (case (mr res, qp res) of
           (Some m, Some q) \<Rightarrow>
             let b = ptr_val (buf res);
                 local_con_data = local_con_data_of bo res b m q (my_gid_of cfg env) in
             (case sock_sync_data chan 34 (con_data_image bo local_con_data)
                     (tmp_con_data_init env) of
                None \<Rightarrow> None
              | Some (rcs, tmp_image, chan1) \<Rightarrow>
                  if rcs < 0 then Some (1, res, chan1, t0 @ [C_sock_sync_data 34])
                  else
                    let remote_con_data =
                          remote_con_data_of bo (con_data_of_image bo tmp_image);
                        res1 = res\<lparr>remote_props := remote_con_data\<rparr> in
                    (case connect_qp_states cfg env res1 b m q remote_con_data chan1 of
                       None \<Rightarrow> None
                     | Some (rc, chan2, t) \<Rightarrow>
                         Some (rc, res1, chan2, t0 @ [C_sock_sync_data 34] @ t)))
         | _ \<Rightarrow> None))"

fun is_post_recv :: "call \<Rightarrow> bool" where
  "is_post_recv (C_post_recv q rr) = True"
| "is_post_recv c = False"

text \<open>
  Two views of what a call of \<^verbatim>\<open>connect_qp\<close> has done: the return code with the bytes
  written to the socket, and the return code with the receive requests posted.
\<close>

definition bytes_sent ::
  "(int \<times> resources \<times> socket \<times> call list) option \<Rightarrow> (int \<times> byte list) option" where
  "bytes_sent r = map_option (\<lambda>(rc, res', chan', tr). (rc, sent chan')) r"

definition receives_posted ::
  "(int \<times> resources \<times> socket \<times> call list) option \<Rightarrow> (int \<times> call list) option" where
  "receives_posted r = map_option (\<lambda>(rc, res', chan', tr). (rc, filter is_post_recv tr)) r"

text \<open>
  \<^verbatim>\<open>initRDMAConnection\<close> of the Go layer decides the role before anything else: an empty
  address leaves \<^verbatim>\<open>config.server_name\<close> null (server), any other address is stored
  there (client). \<^verbatim>\<open>InitServer(port)\<close> passes the empty address.
\<close>

definition initRDMAConnection_config :: "config_t \<Rightarrow> string \<Rightarrow> int \<Rightarrow> config_t" where
  "initRDMAConnection_config cfg ip port =
     (if ip \<noteq> [] then cfg\<lparr>server_name := Some ip, tcp_port := word_of_int port\<rparr>
      else cfg\<lparr>server_name := None, tcp_port := word_of_int port\<rparr>)"

section \<open>Creating and destroying the resources\<close>

text \<open>What the calls made by \<^verbatim>\<open>resources_create\<close> return.\<close>

record create_env =
  sock_connect_ret :: int
  get_device_list_ret :: "string list option"
  open_device_ret :: "nat option"
  query_port_ret :: "int \<times> ibv_port_attr"
  alloc_pd_ret :: "nat option"
  create_cq_ret :: "nat option"
  malloc_ret :: "64 word option"
  reg_mr_ret :: "ibv_mr option"
  create_qp_ret :: "ibv_qp option"

text \<open>
  The device loop: with no device name configured the first device's name is stored
  into the configuration; the loop stops at the first device of the configured name.
\<close>

fun find_device :: "string option \<Rightarrow> string list \<Rightarrow> string option \<times> string option" where
  "find_device dn [] = (dn, None)"
| "find_device dn (d # ds) =
     (let dn' = (case dn of None \<Rightarrow> Some d | Some n \<Rightarrow> Some n)
      in if Some d = dn' then (dn', Some d) else find_device dn' ds)"

text \<open>
  The body of \<^verbatim>\<open>resources_create\<close> up to the label \<^verbatim>\<open>resources_create_exit\<close>: the
  return code, the resources, the configuration, the local \<^verbatim>\<open>dev_list\<close> and the calls
  made. Each failure leaves the chain at once.
\<close>

definition resources_create_body ::
  "config_t \<Rightarrow> create_env \<Rightarrow> resources
     \<Rightarrow> int \<times> resources \<times> config_t \<times> string list option \<times> call list" where
  "resources_create_body cfg env res0 =
     (let res = res0\<lparr>sock := sock_connect_ret env\<rparr>;
          t = [C_sock_connect (sock_connect_ret env)] in
      if sock res < 0 then (- 1, res, cfg, None, t)
      else
      let dev_list = get_device_list_ret env;
          t = t @ [C_get_device_list dev_list] in
      case dev_list of
        None \<Rightarrow> (1, res, cfg, dev_list, t)
      | Some devs \<Rightarrow>
      if length devs = 0 then (1, res, cfg, dev_list, t)
      else
      let (dn, ib_dev) = find_device (dev_name cfg) devs;
          cfg = cfg\<lparr>dev_name := dn\<rparr> in
      case ib_dev of
        None \<Rightarrow> (1, res, cfg, dev_list, t)
      | Some d \<Rightarrow>
      let res = res\<lparr>ib_ctx := open_device_ret env\<rparr>;
          t = t @ [C_open_device (open_device_ret env)] in
      case ib_ctx res of
        None \<Rightarrow> (1, res, cfg, dev_list, t)
      | Some ctx \<Rightarrow>
      let t = t @ [C_free_device_list];
          dev_list = None;
          res = res\<lparr>port_attr := snd (query_port_ret env)\<rparr>;
          t = t @ [C_query_port (fst (query_port_ret env))] in
      if fst (query_port_ret env) \<noteq> 0 then (1, res, cfg, dev_list, t)
      else
      let res = res\<lparr>pd := alloc_pd_ret env\<rparr>;
          t = t @ [C_alloc_pd (alloc_pd_ret env)] in
      case pd res of
        None \<Rightarrow> (1, res, cfg, dev_list, t)
      | Some p \<Rightarrow>
      let res = res\<lparr>cq := create_cq_ret env\<rparr>;
          t = t @ [C_create_cq 1 (create_cq_ret env)] in
      case cq res of
        None \<Rightarrow> (1, res, cfg, dev_list, t)
      | Some c \<Rightarrow>
      let res = res\<lparr>buf := malloc_ret env\<rparr>;
          t = t @ [C_malloc MSG_SIZE (malloc_ret env)] in
      case buf res of
        None \<Rightarrow> (1, res, cfg, dev_list, t)
      | Some b \<Rightarrow>
      let t = t @ [C_memset b MSG_SIZE];
          mr_flags = {IBV_ACCESS_LOCAL_WRITE, IBV_ACCESS_REMOTE_READ, IBV_ACCESS_REMOTE_WRITE};
          res = res\<lparr>mr := reg_mr_ret env\<rparr>;
          t = t @ [C_reg_mr mr_flags (reg_mr_ret env)] in
      case mr res of
        None \<Rightarrow> (1, res, cfg, dev_list, t)
      | Some m \<Rightarrow>
      let res = res\<lparr>qp := create_qp_ret env\<rparr>;
          t = t @ [C_create_qp (create_qp_ret env)] in
      case qp res of
        None \<Rightarrow> (1, res, cfg, dev_list, t)
      | Some q \<Rightarrow> (0, res, cfg, dev_list, t))"

text \<open>
  The code after the label, run when \<^verbatim>\<open>rc\<close> is not 0: every populated field is
  released and cleared, in this order.
\<close>

definition resources_create_exit ::
  "resources \<Rightarrow> string list option \<Rightarrow> resources \<times> call list" where
  "resources_create_exit res0 dev_list =
     (let (res, t) = (case qp res0 of
                        Some q \<Rightarrow> (res0\<lparr>qp := None\<rparr>, [C_destroy_qp q])
                      | None \<Rightarrow> (res0, []));
          (res, t) = (case mr res of
                        Some m \<Rightarrow> (res\<lparr>mr := None\<rparr>, t @ [C_dereg_mr m])
                      | None \<Rightarrow> (res, t));
          (res, t) = (case buf res of
                        Some b \<Rightarrow> (res\<lparr>buf := None\<rparr>, t @ [C_free b])
                      | None \<Rightarrow> (res, t));
          (res, t) = (case cq res of
                        Some c \<Rightarrow> (res\<lparr>cq := None\<rparr>, t @ [C_destroy_cq c])
                      | None \<Rightarrow> (res, t));
          (res, t) = (case pd res of
                        Some p \<Rightarrow> (res\<lparr>pd := None\<rparr>, t @ [C_dealloc_pd p])
                      | None \<Rightarrow> (res, t));
          (res, t) = (case ib_ctx res of
                        Some c \<Rightarrow> (res\<lparr>ib_ctx := None\<rparr>, t @ [C_close_device c])
                      | None \<Rightarrow> (res, t));
          t = (case dev_list of Some l \<Rightarrow> t @ [C_free_device_list] | None \<Rightarrow> t)
      in if sock res \<ge> 0 then (res\<lparr>sock := - 1\<rparr>, t @ [C_close (sock res)]) else (res, t))"

definition resources_create ::
  "config_t \<Rightarrow> create_env \<Rightarrow> resources \<Rightarrow> int \<times> resources \<times> config_t \<times> call list" where
  "resources_create cfg env res0 =
     (let (rc, res, cfg', dev_list, t) = resources_create_body cfg env res0 in
      if rc \<noteq> 0
      then (let (res', t') = resources_create_exit res dev_list in (rc, res', cfg', t @ t'))
      else (rc, res, cfg', t))"

text \<open>
  The handles a call hands out and the handles a call gives back, and the handles
  still held after a sequence of calls.
\<close>

datatype handle =
    H_qp ibv_qp | H_mr ibv_mr | H_buf "64 word" | H_cq nat | H_pd nat | H_ctx nat
  | H_dev_list | H_sock int

fun acquires :: "call \<Rightarrow> handle list" where
  "acquires (C_sock_connect fd) = (if fd \<ge> 0 then [H_sock fd] else [])"
| "acquires (C_get_device_list (Some l)) = [H_dev_list]"
| "acquires (C_open_device (Some c)) = [H_ctx c]"
| "acquires (C_alloc_pd (Some p)) = [H_pd p]"
| "acquires (C_create_cq n (Some c)) = [H_cq c]"
| "acquires (C_malloc n (Some b)) = [H_buf b]"
| "acquires (C_reg_mr fl (Some m)) = [H_mr m]"
| "acquires (C_create_qp (Some q)) = [H_qp q]"
| "acquires c = []"

fun releases :: "call \<Rightarrow> handle list" where
  "releases (C_destroy_qp q) = [H_qp q]"
| "releases (C_dereg_mr m) = [H_mr m]"
| "releases (C_free b) = [H_buf b]"
| "releases (C_destroy_cq c) = [H_cq c]"
| "releases (C_dealloc_pd p) = [H_pd p]"
| "releases (C_close_device c) = [H_ctx c]"
| "releases C_free_device_list = [H_dev_list]"
| "releases (C_close fd) = [H_sock fd]"
| "releases c = []"

fun held :: "handle list \<Rightarrow> call list \<Rightarrow> handle list" where
  "held hs [] = hs"
| "held hs (c # cs) = held (foldr remove1 (releases c) (hs @ acquires c)) cs"

fun release_rank :: "handle \<Rightarrow> nat" where
  "release_rank (H_qp q) = 0"
| "release_rank (H_mr m) = 1"
| "release_rank (H_buf b) = 2"
| "release_rank (H_cq c) = 3"
| "release_rank (H_pd p) = 4"
| "release_rank (H_ctx c) = 5"
| "release_rank H_dev_list = 6"
| "release_rank (H_sock fd) = 7"

text \<open>
  \<^verbatim>\<open>resources_destroy\<close>: every populated field is released; a release that fails sets
  \<^verbatim>\<open>rc\<close> to 1 and the function goes on. \<^verbatim>\<open>free\<close> returns nothing.
\<close>

record destroy_env =
  destroy_qp_ret :: int
  dereg_mr_ret :: int
  destroy_cq_ret :: int
  dealloc_pd_ret :: int
  close_device_ret :: int
  close_ret :: int

definition resources_destroy :: "destroy_env \<Rightarrow> resources \<Rightarrow> int \<times> call list" where
  "resources_destroy env res =
     (let (rc, t) = (case qp res of
                       Some q \<Rightarrow> (if destroy_qp_ret env \<noteq> 0 then 1 else 0, [C_destroy_qp q])
                     | None \<Rightarrow> (0, []));
          (rc, t) = (case mr res of
                       Some m \<Rightarrow> (if dereg_mr_ret env \<noteq> 0 then 1 else rc, t @ [C_dereg_mr m])
                     | None \<Rightarrow> (rc, t));
          t = (case buf res of Some b \<Rightarrow> t @ [C_free b] | None \<Rightarrow> t);
          (rc, t) = (case cq res of
                       Some c \<Rightarrow> (if destroy_cq_ret env \<noteq> 0 then 1 else rc, t @ [C_destroy_cq c])
                     | None \<Rightarrow> (rc, t));
          (rc, t) = (case pd res of
                       Some p \<Rightarrow> (if dealloc_pd_ret env \<noteq> 0 then 1 else rc, t @ [C_dealloc_pd p])
                     | None \<Rightarrow> (rc, t));
          (rc, t) = (case ib_ctx res of
                       Some c \<Rightarrow>
                         (if close_device_ret env \<noteq> 0 then 1 else rc, t @ [C_close_device c])
                     | None \<Rightarrow> (rc, t))
      in if sock res \<ge> 0
         then (if close_ret env \<noteq> 0 then 1 else rc, t @ [C_close (sock res)])
         else (rc, t))"

text \<open>The Go method \<^verbatim>\<open>Destroy\<close>: an error exactly when the C function returns non-zero.\<close>

definition Destroy :: "destroy_env \<Rightarrow> resources \<Rightarrow> string option" where
  "Destroy env res =
     (if fst (resources_destroy env res) \<noteq> 0 then Some ''failed to destroy resources''
      else None)"

text \<open>The return code the environment gives a release call.\<close>

fun release_ret :: "destroy_env \<Rightarrow> call \<Rightarrow> int" where
  "release_ret env (C_destroy_qp q) = destroy_qp_ret env"
| "release_ret env (C_dereg_mr m) = dereg_mr_ret env"
| "release_ret env (C_destroy_cq c) = destroy_cq_ret env"
| "release_ret env (C_dealloc_pd p) = dealloc_pd_ret env"
| "release_ret env (C_close_device c) = close_device_ret env"
| "release_ret env (C_close fd) = close_ret env"
| "release_ret env c = 0"

section \<open>Completion polling\<close>

text \<open>
  \<^verbatim>\<open>poll_completion\<close> reads the clock, then polls the completion queue and reads the
  clock again until a poll returns non-zero or 2000 ms have passed. The clock readings
  and the results of the polls are inputs: one triple per turn of the loop, with the
  work completion the poll wrote. A script that ends before the loop does stands for
  a call that has not returned yet.
\<close>

record timeval =
  tv_sec :: int
  tv_usec :: int

definition msec_of :: "timeval \<Rightarrow> 64 word" where
  "msec_of t = word_of_int (tv_sec t * 1000 + tv_usec t sdiv 1000)"

fun poll_loop :: "64 word \<Rightarrow> (int \<times> ibv_wc \<times> timeval) list \<Rightarrow> (int \<times> ibv_wc) option" where
  "poll_loop start_time_msec [] = None"
| "poll_loop start_time_msec ((poll_result, wc, cur_time) # obs) =
     (if poll_result = 0 \<and> msec_of cur_time - start_time_msec < MAX_POLL_CQ_TIMEOUT
      then poll_loop start_time_msec obs
      else Some (poll_result, wc))"

definition poll_completion :: "timeval \<Rightarrow> (int \<times> ibv_wc \<times> timeval) list \<Rightarrow> int option" where
  "poll_completion start obs =
     (case poll_loop (msec_of start) obs of
        None \<Rightarrow> None
      | Some (poll_result, wc) \<Rightarrow>
          Some (if poll_result < 0 then 1
                else if poll_result = 0 then 1
                else if status wc \<noteq> IBV_WC_SUCCESS then 1
                else 0))"

text \<open>A turn of the loop that finds nothing while the clock is inside the window.\<close>

definition waiting :: "timeval \<Rightarrow> int \<times> ibv_wc \<times> timeval \<Rightarrow> bool" where
  "waiting start ob =
     (fst ob = 0 \<and> msec_of (snd (snd ob)) - msec_of start < MAX_POLL_CQ_TIMEOUT)"

section \<open>Data transfer\<close>

text \<open>
  A peer is its resource set, the memory blocks it has allocated (by address) and its
  end of the control channel.
\<close>

record peer =
  p_res :: resources
  p_mem :: "64 word \<rightharpoonup> byte list"
  p_chan :: socket

definition IBV_WC_LOC_PROT_ERR :: int where
  "IBV_WC_LOC_PROT_ERR = 4"

definition IBV_WC_REM_ACCESS_ERR :: int where
  "IBV_WC_REM_ACCESS_ERR = 10"

text \<open>
  What the adapters do with a posted one-sided work request, as the verbs interface
  specifies it: the local scatter/gather entry must lie in the local memory region
  under its local key, the remote address in the peer's region under its remote key;
  then RDMA WRITE copies the local bytes over the peer's block and RDMA READ copies
  the peer's bytes over the local block. The result is the status of the work
  completion and the two peers.
\<close>

definition rdma_transfer :: "ibv_send_wr \<Rightarrow> peer \<Rightarrow> peer \<Rightarrow> int \<times> peer \<times> peer" where
  "rdma_transfer wr loc rem =
     (case sg_list wr of
        [sge] \<Rightarrow>
          (case (p_mem loc (sge_addr sge), mr (p_res loc)) of
             (Some lblock, Some lm) \<Rightarrow>
               if sge_lkey sge = mr_lkey lm \<and> sge_addr sge = mr_addr lm
                  \<and> sge_length sge \<le> mr_length lm \<and> sge_length sge \<le> length lblock
               then
                 (case (p_mem rem (rdma_remote_addr wr), mr (p_res rem)) of
                    (Some rblock, Some rm) \<Rightarrow>
                      if rdma_rkey wr = mr_rkey rm \<and> rdma_remote_addr wr = mr_addr rm
                         \<and> sge_length sge \<le> mr_length rm \<and> sge_length sge \<le> length rblock
                      then
                        (case opcode wr of
                           IBV_WR_RDMA_WRITE \<Rightarrow>
                             (IBV_WC_SUCCESS, loc,
                              rem\<lparr>p_mem := (p_mem rem)(rdma_remote_addr wr \<mapsto>
                                     take (sge_length sge) lblock @ drop (sge_length sge) rblock)\<rparr>)
                         | IBV_WR_RDMA_READ \<Rightarrow>
                             (IBV_WC_SUCCESS,
                              loc\<lparr>p_mem := (p_mem loc)(sge_addr sge \<mapsto>
                                     take (sge_length sge) rblock @ drop (sge_length sge) lblock)\<rparr>,
                              rem)
                         | IBV_WR_SEND \<Rightarrow> (IBV_WC_REM_ACCESS_ERR, loc, rem))
                      else (IBV_WC_REM_ACCESS_ERR, loc, rem)
                  | _ \<Rightarrow> (IBV_WC_REM_ACCESS_ERR, loc, rem))
               else (IBV_WC_LOC_PROT_ERR, loc, rem)
           | _ \<Rightarrow> (IBV_WC_LOC_PROT_ERR, loc, rem))
      | _ \<Rightarrow> (IBV_WC_LOC_PROT_ERR, loc, rem))"

text \<open>
  The C string of a Go string, \<^verbatim>\<open>strcpy\<close> into a block and the Go string of a block.
  A copy or a scan that runs past the end of the block has no defined result.
\<close>

definition CString :: "byte list \<Rightarrow> byte list" where
  "CString s = s @ [0]"

definition strcpy :: "byte list \<Rightarrow> byte list \<Rightarrow> byte list option" where
  "strcpy dest src =
     (let s = takeWhile (\<lambda>b. b \<noteq> 0) src
      in if length s + 1 \<le> length dest then Some (s @ [0] @ drop (length s + 1) dest)
         else None)"

definition GoString :: "byte list \<Rightarrow> byte list option" where
  "GoString block = (if 0 \<in> set block then Some (takeWhile (\<lambda>b. b \<noteq> 0) block) else None)"

text \<open>\<^verbatim>\<open>syncData\<close>: the one-byte barrier; the Go variable \<^verbatim>\<open>tempChar\<close> starts as 0.\<close>

definition syncData :: "socket \<Rightarrow> (string option \<times> socket) option" where
  "syncData chan =
     (case sock_sync_data chan 1 (CString [0x52]) [0] of
        None \<Rightarrow> None
      | Some (rc, temp_char, chan') \<Rightarrow>
          Some (if rc \<noteq> 0 then Some ''sync error'' else None, chan'))"

text \<open>
  What a transfer gets from outside: the return code of \<^verbatim>\<open>ibv_post_send\<close>, the first
  clock reading of \<^verbatim>\<open>poll_completion\<close> and, per turn of its loop, the result of the
  poll and the clock reading. A poll that finds the completion finds it with the
  status the adapters gave the request.
\<close>

record transfer_env =
  post_send_ret :: int
  poll_start :: timeval
  poll_obs :: "(int \<times> timeval) list"

definition polled :: "transfer_env \<Rightarrow> int \<Rightarrow> int option" where
  "polled env st =
     poll_completion (poll_start env) (map (\<lambda>(r, t). (r, \<lparr>status = st\<rparr>, t)) (poll_obs env))"

text \<open>
  The Go methods \<^verbatim>\<open>Write\<close> and \<^verbatim>\<open>Read\<close>, on the calling peer \<open>loc\<close> with the peer \<open>rem\<close>
  at the other end of the queue pair. The result is the Go error (\<open>None\<close> for
  \<^verbatim>\<open>nil\<close>) and the two peers. \<^verbatim>\<open>strcpy\<close> into a null buffer and \<^verbatim>\<open>post_send\<close> on a
  resource set without memory region or queue pair kill the process; \<^verbatim>\<open>C.GoString\<close>
  of a null pointer is the empty string.
\<close>

definition Write ::
  "transfer_env \<Rightarrow> peer \<Rightarrow> peer \<Rightarrow> byte list \<Rightarrow> string \<Rightarrow> (string option \<times> peer \<times> peer) option" where
  "Write env loc rem contents character =
     (case syncData (p_chan loc) of
        None \<Rightarrow> None
      | Some (Some err, ch1) \<Rightarrow> Some (Some err, loc\<lparr>p_chan := ch1\<rparr>, rem)
      | Some (None, ch1) \<Rightarrow>
          (case (buf (p_res loc), mr (p_res loc), qp (p_res loc)) of
             (Some b, Some m, Some q) \<Rightarrow>
               (case p_mem loc b of
                  None \<Rightarrow> None
                | Some block \<Rightarrow>
                    (case strcpy block (CString contents) of
                       None \<Rightarrow> None
                     | Some block' \<Rightarrow>
                         let loc1 = loc\<lparr>p_chan := ch1, p_mem := (p_mem loc)(b \<mapsto> block')\<rparr> in
                         if fst (post_send (p_res loc1) b m q IBV_WR_RDMA_WRITE (post_send_ret env)) \<noteq> 0
                         then Some (Some (character @ '': failed to post SR''), loc1, rem)
                         else
                           let (st, loc2, rem2) =
                                 rdma_transfer (send_wr (p_res loc1) b m IBV_WR_RDMA_WRITE) loc1 rem in
                           (case polled env st of
                              None \<Rightarrow> None
                            | Some pc \<Rightarrow>
                                if pc \<noteq> 0
                                then Some (Some (character @ '': poll completion failed''), loc2, rem2)
                                else
                                  (case syncData (p_chan loc2) of
                                     None \<Rightarrow> None
                                   | Some (e, ch2) \<Rightarrow> Some (e, loc2\<lparr>p_chan := ch2\<rparr>, rem2)))))
           | _ \<Rightarrow> None))"

definition Read ::
  "transfer_env \<Rightarrow> peer \<Rightarrow> peer \<Rightarrow> string \<Rightarrow> ((byte list \<times> string option) \<times> peer \<times> peer) option" where
  "Read env loc rem character =
     (case syncData (p_chan loc) of
        None \<Rightarrow> None
      | Some (Some err, ch1) \<Rightarrow> Some (([], Some err), loc\<lparr>p_chan := ch1\<rparr>, rem)
      | Some (None, ch1) \<Rightarrow>
          (case (mr (p_res loc), qp (p_res loc)) of
             (Some m, Some q) \<Rightarrow>
               let loc1 = loc\<lparr>p_chan := ch1\<rparr>;
                   b = ptr_val (buf (p_res loc1)) in
               if fst (post_send (p_res loc1) b m q IBV_WR_RDMA_READ (post_send_ret env)) \<noteq> 0
               then Some (([], Some (character @ '': failed to post SR'')), loc1, rem)
               else
                 let (st, loc2, rem2) =
                       rdma_transfer (send_wr (p_res loc1) b m IBV_WR_RDMA_READ) loc1 rem in
                 (case polled env st of
                    None \<Rightarrow> None
                  | Some pc \<Rightarrow>
                      if pc \<noteq> 0
                      then Some (([], Some (character @ '': poll completion after post_send failed'')),
                                 loc2, rem2)
                      else
                        (case syncData (p_chan loc2) of
                           None \<Rightarrow> None
                         | Some (Some err, ch2) \<Rightarrow>
                             Some (([], Some err), loc2\<lparr>p_chan := ch2\<rparr>, rem2)
                         | Some (None, ch2) \<Rightarrow>
                             (case buf (p_res loc2) of
                                None \<Rightarrow> Some (([], None), loc2\<lparr>p_chan := ch2\<rparr>, rem2)
                              | Some a \<Rightarrow>
                                  (case p_mem loc2 a of
                                     None \<Rightarrow> None
                                   | Some block \<Rightarrow>
                                       (case GoString block of
                                          None \<Rightarrow> None
                                        | Some s \<Rightarrow>
                                            Some ((s, None), loc2\<lparr>p_chan := ch2\<rparr>, rem2))))))
           | _ \<Rightarrow> None))"

section \<open>Verification: the control-channel exchange\<close>

lemma recv_loop_done:
  "\<not> (rc = 0 \<and> t < n) \<Longrightarrow> recv_loop s n rc t remote = Some (rc, remote, s)"
  by (subst recv_loop.simps) auto

lemma recv_loop_some_eof_False:
  assumes "recv_loop s n rc t remote = Some y"
  shows "\<not> (rc = 0 \<and> t < n \<and> (\<exists>es. rx s = RdEof # es))"
proof (rule recv_loop.raw_induct
    [where P = "\<lambda>s n rc t remote y. \<not> (rc = 0 \<and> t < n \<and> (\<exists>es. rx s = RdEof # es))",
      OF _ assms])
  fix loop s n rc t remote y
  assume IH: "\<And>s n rc t remote y. loop s n rc t remote = Some y \<Longrightarrow>
                \<not> (rc = 0 \<and> t < n \<and> (\<exists>es. rx s = RdEof # es))"
    and step: "(if rc = 0 \<and> t < n then
        (case sock_read s (nat n) of
           None \<Rightarrow> None
         | Some (read_bytes, chunk, s') \<Rightarrow>
             (if read_bytes > 0
              then loop s' n rc (t + read_bytes) (overwrite_at0 chunk remote)
              else loop s' n read_bytes t remote))
      else Some (rc, remote, s)) = Some y"
  show "\<not> (rc = 0 \<and> t < n \<and> (\<exists>es. rx s = RdEof # es))"
  proof
    assume a: "rc = 0 \<and> t < n \<and> (\<exists>es. rx s = RdEof # es)"
    then have "sock_read s (nat n) = Some (0, [], s)"
      by (auto simp: sock_read_def)
    with step a have "loop s n 0 t remote = Some y"
      by simp
    with IH a show False
      by blast
  qed
qed

lemma recv_loop_eof:
  assumes "rx s = RdEof # es" and "t < n"
  shows "recv_loop s n 0 t remote = None"
proof (cases "recv_loop s n 0 t remote")
  case None
  then show ?thesis .
next
  case (Some y)
  with assms recv_loop_some_eof_False [of s n 0 t remote y] show ?thesis
    by blast
qed

lemma recv_loop_err:
  assumes "rx s = RdErr # es" and "t < n"
  shows "recv_loop s n 0 t remote = Some (- 1, remote, s\<lparr>rx := es\<rparr>)"
  using assms
  by (subst recv_loop.simps) (simp add: sock_read_def recv_loop_done)

lemma recv_loop_data:
  assumes "rx s = RdData c # es" and "t < n" and "c \<noteq> []" and "length c \<le> nat n"
  shows "recv_loop s n 0 t remote =
         recv_loop (s\<lparr>rx := es\<rparr>) n 0 (t + int (length c)) (overwrite_at0 c remote)"
  using assms
  by (subst recv_loop.simps) (simp add: sock_read_def)

lemma recv_loop_chunks:
  "in_reads n t cs \<Longrightarrow> rx s = map RdData cs @ rest \<Longrightarrow>
   recv_loop s (int n) 0 (int t) remote =
     Some (0, foldl (\<lambda>b c. overwrite_at0 c b) remote cs, s\<lparr>rx := rest\<rparr>)"
proof (induction cs arbitrary: t s remote)
  case Nil
  then have "recv_loop s (int n) 0 (int t) remote = Some (0, remote, s)"
    by (intro recv_loop_done) simp
  moreover from Nil have "s\<lparr>rx := rest\<rparr> = s"
    by simp
  ultimately show ?case
    by simp
next
  case (Cons c cs)
  from Cons.prems have c: "t < n" "c \<noteq> []" "length c \<le> n" "in_reads n (t + length c) cs"
    and rx: "rx s = RdData c # (map RdData cs @ rest)"
    by simp_all
  have "recv_loop s (int n) 0 (int t) remote =
        recv_loop (s\<lparr>rx := map RdData cs @ rest\<rparr>) (int n) 0 (int t + int (length c))
          (overwrite_at0 c remote)"
    using rx c by (intro recv_loop_data) simp_all
  also have "\<dots> = Some (0, foldl (\<lambda>b c. overwrite_at0 c b) (overwrite_at0 c remote) cs,
                       s\<lparr>rx := map RdData cs @ rest\<rparr>\<lparr>rx := rest\<rparr>)"
    using Cons.IH [OF c(4), of "s\<lparr>rx := map RdData cs @ rest\<rparr>" "overwrite_at0 c remote"]
    by simp
  finally show ?case
    by simp
qed

lemma length_overwrite_at0:
  "length c \<le> length b \<Longrightarrow> length (overwrite_at0 c b) = length b"
  by (simp add: overwrite_at0_def)

lemma length_foldl_overwrite:
  "\<forall>c \<in> set cs. length c \<le> length b \<Longrightarrow>
   length (foldl (\<lambda>b c. overwrite_at0 c b) b cs) = length b"
  by (induction cs arbitrary: b) (simp_all add: length_overwrite_at0)

lemma take_foldl_overwrite_last:
  "cs \<noteq> [] \<Longrightarrow>
   take (length (last cs)) (foldl (\<lambda>b c. overwrite_at0 c b) b cs) = last cs"
  by (induction cs arbitrary: b) (auto simp: overwrite_at0_def)

lemma sock_sync_data_full_write:
  assumes "tx s = WrAccept k # ws" and "n \<le> k" and "length local_data = n"
  shows "sock_sync_data s (int n) local_data remote =
         recv_loop (s\<lparr>tx := ws, sent := sent s @ local_data\<rparr>) (int n) 0 0 remote"
  using assms by (simp add: sock_sync_data_def sock_write_def min_def)

text \<open>
  A short write leaves the byte count in \<^verbatim>\<open>rc\<close>: the exchange returns it, a positive
  number, without reading, and the test \<^verbatim>\<open>< 0\<close> in \<^verbatim>\<open>connect_qp\<close> lets it pass.
\<close>

lemma sock_sync_data_short_write:
  assumes "tx s = WrAccept k # ws" and "0 < k" and "k < n" and "length local_data = n"
  shows "sock_sync_data s (int n) local_data remote =
           Some (int k, remote, s\<lparr>tx := ws, sent := sent s @ take k local_data\<rparr>)"
  using assms by (simp add: sock_sync_data_def sock_write_def min_def recv_loop_done)

subsection \<open>A peer that closes the stream\<close>

text \<open>
  C5. The exchange is claimed to return an error, rather than block for ever, when the
  stream ends before the awaited bytes have arrived. In the code a \<^verbatim>\<open>read\<close> that
  returns 0 stores 0 into \<^verbatim>\<open>rc\<close>, so the loop condition still holds and the loop reads
  again: on a stream closed by the peer the one-byte barrier exchange never returns.
\<close>

theorem sock_sync_data_eof_never_returns:
  "sock_sync_data \<lparr>rx = [RdEof], tx = [WrAccept 1], sent = []\<rparr> 1 [0x52] [0] = None"
  by (simp add: sock_sync_data_def sock_write_def recv_loop_eof [where es = "[]"])

subsection \<open>Where the received bytes land\<close>

text \<open>
  C9, as stated, says that the block returned equals the bytes the peer sent only if
  they all arrive in one \<^verbatim>\<open>read\<close>. Here the peer's two bytes \<open>[1, 1]\<close> arrive one per
  \<^verbatim>\<open>read\<close>, the output block held \<open>[0, 1]\<close> before the call, and the block returned
  is \<open>[1, 1]\<close> all the same.
\<close>

theorem sock_sync_data_two_reads_equal:
  "sock_sync_data \<lparr>rx = [RdData [1], RdData [1]], tx = [WrAccept 2], sent = []\<rparr> 2 [7, 7] [0, 1]
     = Some (0, [1, 1], \<lparr>rx = [], tx = [], sent = [7, 7]\<rparr>)"
  by code_simp

text \<open>
  C9, amended. After a full write, when the awaited \<open>n\<close> bytes are delivered as the
  chunks \<open>cs\<close>, one per \<^verbatim>\<open>read\<close>, the exchange returns 0 and the output block is the
  block it was given with each chunk in turn written over its start: only the byte
  count advances, never the offset. So the block returned begins with the last chunk
  read, and it is the sequence sent when that sequence came in a single \<^verbatim>\<open>read\<close>.
\<close>

theorem sock_sync_data_reads_at_offset0:
  assumes "tx s = WrAccept k # ws" and "n \<le> k" and "length local_data = n"
    and "length remote = n" and "rx s = map RdData cs @ rest" and "in_reads n 0 cs"
  shows "\<exists>blk. sock_sync_data s (int n) local_data remote =
                 Some (0, blk, s\<lparr>tx := ws, sent := sent s @ local_data, rx := rest\<rparr>)
           \<and> blk = foldl (\<lambda>b c. overwrite_at0 c b) remote cs
           \<and> (cs \<noteq> [] \<longrightarrow> take (length (last cs)) blk = last cs)
           \<and> (\<forall>d. cs = [d] \<longrightarrow> blk = d)"
proof -
  let ?s1 = "s\<lparr>tx := ws, sent := sent s @ local_data\<rparr>"
  let ?blk = "foldl (\<lambda>b c. overwrite_at0 c b) remote cs"
  have "sock_sync_data s (int n) local_data remote = recv_loop ?s1 (int n) 0 0 remote"
    using assms(1-3) by (rule sock_sync_data_full_write)
  also have "\<dots> = Some (0, ?blk, ?s1\<lparr>rx := rest\<rparr>)"
    using recv_loop_chunks [OF assms(6), of ?s1 rest remote] assms(5) by simp
  finally have run: "sock_sync_data s (int n) local_data remote = Some (0, ?blk, ?s1\<lparr>rx := rest\<rparr>)" .
  have single: "?blk = d" if "cs = [d]" for d
  proof -
    from that assms(6) have "length d = n"
      by simp
    with that assms(4) show ?thesis
      by (simp add: overwrite_at0_def)
  qed
  from run single take_foldl_overwrite_last [of cs remote] show ?thesis
    by simp
qed

theorem sock_sync_data_reads_at_offset0_witness:
  "sock_sync_data \<lparr>rx = [RdData [1, 2], RdData [3]], tx = [WrAccept 3], sent = []\<rparr> 3
       [7, 8, 9] [0, 0, 0]
     = Some (0, [3, 2, 0], \<lparr>rx = [], tx = [], sent = [7, 8, 9]\<rparr>)"
  using sock_sync_data_reads_at_offset0
    [where s = "\<lparr>rx = [RdData [1, 2], RdData [3]], tx = [WrAccept 3], sent = []\<rparr>"
       and k = 3 and ws = "[]" and n = 3 and local_data = "[7, 8, 9]"
       and remote = "[0, 0, 0]" and cs = "[[1, 2], [3]]" and rest = "[]"]
  by (simp add: overwrite_at0_def)

section \<open>Verification: byte order\<close>

lemma length_le_bytes [simp]: "length (le_bytes k v) = k"
  by (induction k arbitrary: v) simp_all

lemma le_val_le_bytes: "le_val (le_bytes k v) = v mod 256 ^ k"
proof (induction k arbitrary: v)
  case 0
  show ?case by simp
next
  case (Suc k)
  have "uint (word_of_int (v mod 256) :: byte) = v mod 256"
    by (simp add: uint_word_of_int take_bit_eq_mod)
  moreover have "v mod (256 * 256 ^ k) = 256 * (v div 256 mod 256 ^ k) + v mod 256"
    by (rule zmod_zmult2_eq) simp
  ultimately show ?case
    using Suc by simp
qed

lemma uint_byte_bound: "0 \<le> uint (b :: byte) \<and> uint b < 256"
  using uint_lt2p [of b] by simp

lemma le_val_bound: "0 \<le> le_val bs \<and> le_val bs < 256 ^ length bs"
proof (induction bs)
  case Nil
  show ?case by simp
next
  case (Cons b bs)
  with uint_byte_bound [of b] show ?case
    by simp
qed

lemma le_bytes_le_val: "length bs = k \<Longrightarrow> le_bytes k (le_val bs) = bs"
proof (induction bs arbitrary: k)
  case Nil
  then show ?case by simp
next
  case (Cons b bs)
  then obtain k' where k: "k = Suc k'" and l: "length bs = k'"
    by (cases k) auto
  from uint_byte_bound [of b]
  have "(uint b + 256 * le_val bs) mod 256 = uint b"
    and "(uint b + 256 * le_val bs) div 256 = le_val bs"
    by simp_all
  with Cons.IH [OF l] k show ?case
    by simp
qed

lemma le_word_le_val: "(le_word bs :: 'a::len word) = word_of_int (le_val bs)"
  by (induction bs) simp_all

lemma uint_le_word:
  assumes "LENGTH('a::len) = 8 * k" and "length bs = k"
  shows "uint (le_word bs :: 'a word) = le_val bs"
proof -
  have "(256::int) ^ k = 2 ^ LENGTH('a)"
    using assms(1) by (simp add: power_mult)
  with le_val_bound [of bs] assms(2) have "0 \<le> le_val bs" "le_val bs < 2 ^ LENGTH('a)"
    by simp_all
  then show ?thesis
    by (simp add: le_word_le_val uint_word_of_int take_bit_eq_mod)
qed

lemma store_hton:
  fixes x :: "'a::len word"
  assumes "LENGTH('a) = 8 * k"
  shows "store bo (case bo of LittleEndian \<Rightarrow> bswap x | BigEndian \<Rightarrow> x) = rev (le_bytes k (uint x))"
proof (cases bo)
  case BigEndian
  with assms show ?thesis
    by (simp add: store_def)
next
  case LittleEndian
  have "uint (le_word (rev (le_bytes k (uint x))) :: 'a word) = le_val (rev (le_bytes k (uint x)))"
    using assms by (intro uint_le_word [where k = k]) simp_all
  with LittleEndian assms show ?thesis
    by (simp add: store_def bswap_def le_bytes_le_val)
qed

lemma ntoh_load:
  assumes "LENGTH('a) = 8 * k" and "length bs = k"
  shows "(case bo of LittleEndian \<Rightarrow> bswap (load bo bs :: 'a::len word) | BigEndian \<Rightarrow> load bo bs)
           = le_word (rev bs)"
proof (cases bo)
  case BigEndian
  then show ?thesis
    by (simp add: load_def)
next
  case LittleEndian
  have "uint (le_word bs :: 'a word) = le_val bs"
    using assms by (rule uint_le_word)
  with LittleEndian assms show ?thesis
    by (simp add: load_def bswap_def le_bytes_le_val)
qed

lemma load_be_bytes:
  fixes x :: "'a::len word"
  assumes "LENGTH('a) = 8 * k"
  shows "(le_word (rev (rev (le_bytes k (uint x)))) :: 'a word) = x"
proof -
  have "(256::int) ^ k = 2 ^ LENGTH('a)"
    using assms by (simp add: power_mult)
  moreover have "uint x mod 2 ^ LENGTH('a) = uint x"
    by (simp add: uint_lt2p)
  ultimately show ?thesis
    by (simp add: le_word_le_val le_val_le_bytes)
qed

lemma wire_round_trip:
  fixes x :: "'a::len word"
  assumes "LENGTH('a) = 8 * k"
  shows "(case bo2 of
            LittleEndian \<Rightarrow>
              bswap (load bo2 (store bo1 (case bo1 of LittleEndian \<Rightarrow> bswap x | BigEndian \<Rightarrow> x)) :: 'a word)
          | BigEndian \<Rightarrow>
              load bo2 (store bo1 (case bo1 of LittleEndian \<Rightarrow> bswap x | BigEndian \<Rightarrow> x))) = x"
proof -
  let ?wire = "rev (le_bytes k (uint x))"
  have "(case bo2 of LittleEndian \<Rightarrow> bswap (load bo2 ?wire :: 'a word) | BigEndian \<Rightarrow> load bo2 ?wire)
          = le_word (rev ?wire)"
    using assms by (rule ntoh_load) simp
  also have "\<dots> = x"
    using assms by (rule load_be_bytes)
  finally show ?thesis
    by (simp only: store_hton [OF assms])
qed

lemma length_store:
  fixes x :: "'a::len word"
  assumes "LENGTH('a) = 8 * k"
  shows "length (store bo x) = k"
  using assms by (cases bo) (simp_all add: store_def)

lemma round64: "ntohll bo2 (load bo2 (store bo1 (htonll bo1 x))) = x"
  unfolding ntohll_def htonll_def by (rule wire_round_trip [where k = 8]) simp
lemma round32: "ntohl bo2 (load bo2 (store bo1 (htonl bo1 x))) = x"
  unfolding ntohl_def htonl_def by (rule wire_round_trip [where k = 4]) simp
lemma round16: "ntohs bo2 (load bo2 (store bo1 (htons bo1 x))) = x"
  unfolding ntohs_def htons_def by (rule wire_round_trip [where k = 2]) simp

lemma length_store64 [simp]: "length (store bo (x :: 64 word)) = 8"
  by (rule length_store) simp
lemma length_store32 [simp]: "length (store bo (x :: 32 word)) = 4"
  by (rule length_store) simp
lemma length_store16 [simp]: "length (store bo (x :: 16 word)) = 2"
  by (rule length_store) simp

lemma remote_of_local_con_data:
  assumes "length my_gid = 16"
  shows "remote_con_data_of bo2 (con_data_of_image bo2
           (con_data_image bo1 (local_con_data_of bo1 res b m q my_gid)))
         = \<lparr>addr = b, rkey = mr_rkey m, qp_num = qp_qp_num q,
            lid = port_lid (port_attr res), gid = my_gid\<rparr>"
  using assms
  by (simp add: remote_con_data_of_def con_data_of_image_def con_data_image_def
      local_con_data_of_def round64 round32 round16)

lemma MSG_SIZE_85: "MSG_SIZE = 85"
  by (simp add: MSG_SIZE_def MSG_def)

section \<open>Verification: the queue-pair state machine\<close>

text \<open>
  C10. Whenever a GID index \<open>\<ge> 0\<close> is configured, the transition to RTR hands
  \<^verbatim>\<open>ibv_modify_qp\<close> an address handle with global routing whose port number is the
  constant 1, whatever local port is configured, while the transition to INIT hands it
  the configured port.
\<close>

theorem modify_qp_to_rtr_port_is_one:
  assumes "gid_idx cfg \<ge> 0"
  shows "(\<exists>attr fl. snd (modify_qp_to_rtr cfg q remote_qpn dl dg ret) = [C_modify_qp q attr fl]
            \<and> IBV_QP_AV \<in> fl \<and> is_global (ah_attr attr) = 1
            \<and> ah_port_num (ah_attr attr) = 1)
       \<and> (\<exists>attr fl. snd (modify_qp_to_init cfg q ret') = [C_modify_qp q attr fl]
            \<and> IBV_QP_PORT \<in> fl \<and> port_num attr = word_of_int (ib_port cfg))"
  using assms
  by (simp add: modify_qp_to_rtr_def modify_qp_to_init_def rtr_attr_def init_attr_def Let_def)

theorem modify_qp_to_rtr_port_is_one_witness:
  "ah_port_num (ah_attr (rtr_attr
       \<lparr>dev_name = None, server_name = None, tcp_port = 19875, ib_port = 2, gid_idx = 0\<rparr>
       0x11 7 (replicate 16 0))) = 1
   \<and> port_num (init_attr
       \<lparr>dev_name = None, server_name = None, tcp_port = 19875, ib_port = 2, gid_idx = 0\<rparr>) = 2"
  using modify_qp_to_rtr_port_is_one
    [where cfg = "\<lparr>dev_name = None, server_name = None, tcp_port = 19875, ib_port = 2,
                    gid_idx = 0\<rparr>"
       and q = "\<lparr>qp_handle = 4, qp_qp_num = 0x11\<rparr>" and remote_qpn = "0x11" and dl = 7
       and dg = "replicate 16 0" and ret = 0 and ret' = 0]
  by (simp add: modify_qp_to_rtr_def modify_qp_to_init_def)

section \<open>Verification: connection establishment\<close>

lemma my_gid_of_zero: "my_gid_of cfg env = replicate 16 0"
  by (simp add: my_gid_of_def Let_def)

lemma length_con_data_image:
  "16 \<le> length (gid d) \<Longrightarrow> length (con_data_image bo d) = 34"
  by (simp add: con_data_image_def)

lemma length_local_image:
  "length (con_data_image bo (local_con_data_of bo res b m q (my_gid_of cfg env))) = 34"
  by (simp add: con_data_image_def local_con_data_of_def my_gid_of_zero)

lemma con_data_of_image_append:
  "length img = 34 \<Longrightarrow> con_data_of_image bo (img @ xs) = con_data_of_image bo img"
  by (simp add: con_data_of_image_def)

lemma sock_sync_data_one_read:
  assumes "tx s = WrAccept k # ws" and "n \<le> k" and "length local_data = n"
    and "rx s = RdData d # rest" and "length d = n" and "0 < n"
  shows "sock_sync_data s (int n) local_data remote =
           Some (0, d @ drop n remote, s\<lparr>tx := ws, sent := sent s @ local_data, rx := rest\<rparr>)"
proof -
  let ?s1 = "s\<lparr>tx := ws, sent := sent s @ local_data\<rparr>"
  have "in_reads n 0 [d]"
    using assms(5,6) by auto
  moreover have "rx ?s1 = map RdData [d] @ rest"
    using assms(4) by simp
  ultimately have "recv_loop ?s1 (int n) 0 (int 0) remote =
      Some (0, foldl (\<lambda>b c. overwrite_at0 c b) remote [d], ?s1\<lparr>rx := rest\<rparr>)"
    by (rule recv_loop_chunks)
  with sock_sync_data_full_write [OF assms(1-3), of remote] assms(5) show ?thesis
    by (simp add: overwrite_at0_def)
qed

lemma connect_qp_stores_peer:
  assumes run: "connect_qp bo cfg env res chan = Some (rc, res', chan', tr)"
    and tx: "tx chan = WrAccept k # ws" and k: "34 \<le> k"
    and rx: "rx chan = RdData (con_data_image bo' (local_con_data_of bo' resp bp mp qp' (my_gid_of cfg' env'))) # rest"
  shows "remote_props res' =
           \<lparr>addr = bp, rkey = mr_rkey mp, qp_num = qp_qp_num qp',
            lid = port_lid (port_attr resp), gid = replicate 16 0\<rparr>
         \<or> (gid_idx cfg \<ge> 0 \<and> fst (query_gid_result env) \<noteq> 0 \<and> res' = res)"
proof (cases "gid_idx cfg \<ge> 0 \<and> fst (query_gid_result env) \<noteq> 0")
  case True
  with run show ?thesis
    by (simp add: connect_qp_def Let_def)
next
  case False
  let ?peer = "con_data_image bo' (local_con_data_of bo' resp bp mp qp' (my_gid_of cfg' env'))"
  from run False obtain m q where mq: "mr res = Some m" "qp res = Some q"
    by (auto simp: connect_qp_def Let_def split: option.splits)
  let ?loc = "con_data_image bo
      (local_con_data_of bo res (ptr_val (buf res)) m q (my_gid_of cfg env))"
  have sync: "sock_sync_data chan 34 ?loc (tmp_con_data_init env) =
      Some (0, ?peer @ drop 34 (tmp_con_data_init env),
            chan\<lparr>tx := ws, sent := sent chan @ ?loc, rx := rest\<rparr>)"
    using sock_sync_data_one_read [where n = 34, OF tx k length_local_image rx length_local_image]
    by simp
  have dec: "remote_con_data_of bo (con_data_of_image bo (?peer @ drop 34 (tmp_con_data_init env)))
      = \<lparr>addr = bp, rkey = mr_rkey mp, qp_num = qp_qp_num qp',
            lid = port_lid (port_attr resp), gid = replicate 16 0\<rparr>"
    by (simp only: con_data_of_image_append [OF length_local_image])
      (simp add: my_gid_of_zero remote_of_local_con_data)
  from run False mq sync dec show ?thesis
    by (auto simp: connect_qp_def Let_def split: option.splits if_splits)
qed

lemma connect_qp_states_trace:
  assumes "connect_qp_states cfg env res b m q rcd chan = Some (rc, chan', t)"
  shows "(server_name cfg = None \<longrightarrow> filter is_post_recv t = [])
       \<and> length (filter is_post_recv t) \<le> 1
       \<and> (rc = 0 \<longrightarrow>
            (\<exists>a1 f1 a2 f2 post.
               t = [C_modify_qp q a1 f1] @ filter is_post_recv t @ [C_modify_qp q a2 f2] @ post
               \<and> qp_state a1 = IBV_QPS_INIT \<and> qp_state a2 = IBV_QPS_RTR
               \<and> filter is_post_recv post = [])
            \<and> (server_name cfg \<noteq> None \<longrightarrow> length (filter is_post_recv t) = 1))"
  using assms
  by (auto simp: connect_qp_states_def modify_qp_to_init_def modify_qp_to_rtr_def
      modify_qp_to_rts_def post_receive_def init_attr_def rtr_attr_def rts_attr_def Let_def
      split: if_splits option.splits)

lemma connect_qp_trace:
  assumes "connect_qp bo cfg env res chan = Some (rc, res', chan', tr)"
  shows "(server_name cfg = None \<longrightarrow> filter is_post_recv tr = [])
       \<and> length (filter is_post_recv tr) \<le> 1
       \<and> (rc = 0 \<longrightarrow>
            (\<exists>pre q a1 f1 a2 f2 post.
               tr = pre @ [C_modify_qp q a1 f1] @ filter is_post_recv tr @ [C_modify_qp q a2 f2] @ post
               \<and> qp_state a1 = IBV_QPS_INIT \<and> qp_state a2 = IBV_QPS_RTR
               \<and> filter is_post_recv pre = [] \<and> filter is_post_recv post = [])
            \<and> (server_name cfg \<noteq> None \<longrightarrow> length (filter is_post_recv tr) = 1))"
proof -
  let ?t0 = "if gid_idx cfg \<ge> 0 then [C_query_gid (ib_port cfg) (gid_idx cfg)] else []"
  consider (gid) "tr = ?t0" "rc \<noteq> 0"
    | (sync) "tr = ?t0 @ [C_sock_sync_data 34]" "rc \<noteq> 0"
    | (states) rcd chan1 t b m q where "tr = ?t0 @ [C_sock_sync_data 34] @ t"
        "connect_qp_states cfg env (res\<lparr>remote_props := rcd\<rparr>) b m q rcd chan1 = Some (rc, chan', t)"
    using assms
    by (auto simp: connect_qp_def Let_def split: option.splits if_splits)
  then show ?thesis
  proof cases
    case gid
    then show ?thesis by simp
  next
    case sync
    then show ?thesis by simp
  next
    case states
    from connect_qp_states_trace [OF states(2)]
    have a: "server_name cfg = None \<longrightarrow> filter is_post_recv t = []"
      and b: "length (filter is_post_recv t) \<le> 1"
      and c: "rc = 0 \<longrightarrow>
            (\<exists>a1 f1 a2 f2 post.
               t = [C_modify_qp q a1 f1] @ filter is_post_recv t @ [C_modify_qp q a2 f2] @ post
               \<and> qp_state a1 = IBV_QPS_INIT \<and> qp_state a2 = IBV_QPS_RTR
               \<and> filter is_post_recv post = [])
            \<and> (server_name cfg \<noteq> None \<longrightarrow> length (filter is_post_recv t) = 1)"
      by blast+
    have f: "filter is_post_recv tr = filter is_post_recv t"
      using states(1) by simp
    show ?thesis
    proof (intro conjI impI)
      show "filter is_post_recv tr = []" if "server_name cfg = None"
        using that a f by simp
      show "length (filter is_post_recv tr) \<le> 1"
        using b f by simp
      show "length (filter is_post_recv tr) = 1" if "rc = 0" "server_name cfg \<noteq> None"
        using that c f by simp
      show "\<exists>pre q a1 f1 a2 f2 post.
               tr = pre @ [C_modify_qp q a1 f1] @ filter is_post_recv tr @ [C_modify_qp q a2 f2] @ post
               \<and> qp_state a1 = IBV_QPS_INIT \<and> qp_state a2 = IBV_QPS_RTR
               \<and> filter is_post_recv pre = [] \<and> filter is_post_recv post = []" if "rc = 0"
      proof -
        from c that obtain a1 f1 a2 f2 post where
          t: "t = [C_modify_qp q a1 f1] @ filter is_post_recv t @ [C_modify_qp q a2 f2] @ post"
          and st: "qp_state a1 = IBV_QPS_INIT" "qp_state a2 = IBV_QPS_RTR"
            "filter is_post_recv post = []"
          by blast
        have "tr = (?t0 @ [C_sock_sync_data 34]) @ [C_modify_qp q a1 f1] @ filter is_post_recv tr
                 @ [C_modify_qp q a2 f2] @ post"
          using states(1) t f by simp
        moreover have "filter is_post_recv (?t0 @ [C_sock_sync_data 34]) = []"
          by simp
        ultimately show ?thesis
          using st by blast
      qed
    qed
  qed
qed

text \<open>
  C2. Decoding inverts encoding. When \<^verbatim>\<open>connect_qp\<close> returns and the exchange has
  delivered, in one \<^verbatim>\<open>read\<close>, the image a peer built from its own resource set (on a
  host of either byte order), the \<^verbatim>\<open>remote_props\<close> it stored are the peer's values
  field for field: the
  buffer address through \<^verbatim>\<open>htonll\<close> and \<^verbatim>\<open>ntohll\<close>, remote key and queue-pair number
  through \<^verbatim>\<open>htonl\<close> and \<^verbatim>\<open>ntohl\<close>, the local identifier through \<^verbatim>\<open>htons\<close> and
  \<^verbatim>\<open>ntohs\<close>, and the global identifier as the raw bytes. The second conjunct is the
  round trip alone, for any 16-byte global identifier.
\<close>

theorem connect_qp_remote_props_round_trip:
  assumes "connect_qp bo cfg env res chan = Some (rc, res', chan', tr)"
    and "gid_idx cfg < 0 \<or> fst (query_gid_result env) = 0"
    and "tx chan = WrAccept k # ws" and "34 \<le> k"
    and "rx chan = RdData (con_data_image bo' (local_con_data_of bo' resp bp mp qp'
                     (my_gid_of cfg' env'))) # rest"
    and "length g = 16"
  shows "remote_props res' =
           \<lparr>addr = bp, rkey = mr_rkey mp, qp_num = qp_qp_num qp',
            lid = port_lid (port_attr resp), gid = my_gid_of cfg' env'\<rparr>
       \<and> remote_con_data_of bo (con_data_of_image bo
             (con_data_image bo' (local_con_data_of bo' resp bp mp qp' g))) =
           \<lparr>addr = bp, rkey = mr_rkey mp, qp_num = qp_qp_num qp',
            lid = port_lid (port_attr resp), gid = g\<rparr>"
  using connect_qp_stores_peer [OF assms(1,3,4,5)] assms(2,6)
  by (auto simp: my_gid_of_zero remote_of_local_con_data)

theorem connect_qp_remote_props_round_trip_witness:
  "map_option (\<lambda>(rc, res', chan', tr). remote_props res')
     (connect_qp LittleEndian
        \<lparr>dev_name = None, server_name = Some ''10.0.0.2'', tcp_port = 19875, ib_port = 1,
           gid_idx = - 1\<rparr>
        \<lparr>query_gid_result = (0, replicate 16 0), tmp_con_data_init = replicate 34 0xAA,
           temp_char_init = [0], modify_init_ret = 0, post_recv_ret = 0, modify_rtr_ret = 0,
           modify_rts_ret = 0\<rparr>
        \<lparr>port_attr = \<lparr>port_lid = 7\<rparr>,
           remote_props = \<lparr>addr = 0, rkey = 0, qp_num = 0, lid = 0, gid = replicate 16 0\<rparr>,
           ib_ctx = Some 10, pd = Some 11, cq = Some 12,
           qp = Some \<lparr>qp_handle = 4, qp_qp_num = 0x11\<rparr>,
           mr = Some \<lparr>mr_addr = 0x1000, mr_length = 85, mr_lkey = 0x21, mr_rkey = 0x22\<rparr>,
           buf = Some 0x1000, sock = 5\<rparr>
        \<lparr>rx = [RdData [0, 0, 0, 0, 0, 0, 0x20, 0, 0, 0, 0, 0x32, 0, 0, 0, 0x12, 0, 9,
                       0, 0, 0, 0, 0, 0, 0, 0, 0, 0, 0, 0, 0, 0, 0, 0],
                 RdData [0x51]],
           tx = [WrAccept 34, WrAccept 1], sent = []\<rparr>)
   = Some \<lparr>addr = 0x2000, rkey = 0x32, qp_num = 0x12, lid = 9, gid = replicate 16 0\<rparr>"
proof -
  let ?cfg = "\<lparr>dev_name = None, server_name = Some ''10.0.0.2'', tcp_port = 19875, ib_port = 1,
           gid_idx = - 1\<rparr>"
  let ?env = "\<lparr>query_gid_result = (0, replicate 16 0), tmp_con_data_init = replicate 34 0xAA,
           temp_char_init = [0], modify_init_ret = 0, post_recv_ret = 0, modify_rtr_ret = 0,
           modify_rts_ret = 0\<rparr>"
  let ?res = "\<lparr>port_attr = \<lparr>port_lid = 7\<rparr>,
           remote_props = \<lparr>addr = 0, rkey = 0, qp_num = 0, lid = 0, gid = replicate 16 0\<rparr>,
           ib_ctx = Some 10, pd = Some 11, cq = Some 12,
           qp = Some \<lparr>qp_handle = 4, qp_qp_num = 0x11\<rparr>,
           mr = Some \<lparr>mr_addr = 0x1000, mr_length = 85, mr_lkey = 0x21, mr_rkey = 0x22\<rparr>,
           buf = Some 0x1000, sock = 5\<rparr>"
  let ?peer = "[0, 0, 0, 0, 0, 0, 0x20, 0, 0, 0, 0, 0x32, 0, 0, 0, 0x12, 0, 9,
                       0, 0, 0, 0, 0, 0, 0, 0, 0, 0, 0, 0, 0, 0, 0, 0] :: byte list"
  let ?chan = "\<lparr>rx = [RdData ?peer, RdData [0x51]], tx = [WrAccept 34, WrAccept 1], sent = []\<rparr>"
  let ?resp = "\<lparr>port_attr = \<lparr>port_lid = 9\<rparr>,
           remote_props = \<lparr>addr = 0, rkey = 0, qp_num = 0, lid = 0, gid = replicate 16 0\<rparr>,
           ib_ctx = Some 10, pd = Some 11, cq = Some 12,
           qp = Some \<lparr>qp_handle = 4, qp_qp_num = 0x12\<rparr>,
           mr = Some \<lparr>mr_addr = 0x2000, mr_length = 85, mr_lkey = 0x31, mr_rkey = 0x32\<rparr>,
           buf = Some 0x2000, sock = 6\<rparr>"
  have "connect_qp LittleEndian ?cfg ?env ?res ?chan \<noteq> None"
    by code_simp
  then obtain rc res' chan' tr where
    run: "connect_qp LittleEndian ?cfg ?env ?res ?chan = Some (rc, res', chan', tr)"
    by auto
  have img: "con_data_image BigEndian (local_con_data_of BigEndian ?resp 0x2000
        \<lparr>mr_addr = 0x2000, mr_length = 85, mr_lkey = 0x31, mr_rkey = 0x32\<rparr>
        \<lparr>qp_handle = 4, qp_qp_num = 0x12\<rparr> (replicate 16 0)) = ?peer"
    by code_simp
  have "remote_props res' = \<lparr>addr = 0x2000, rkey = 0x32, qp_num = 0x12, lid = 9, gid = replicate 16 0\<rparr>"
    using connect_qp_remote_props_round_trip
      [OF run, where k = 34 and ws = "[WrAccept 1]" and bo' = BigEndian and resp = ?resp
         and bp = "0x2000"
         and mp = "\<lparr>mr_addr = 0x2000, mr_length = 85, mr_lkey = 0x31, mr_rkey = 0x32\<rparr>"
         and qp' = "\<lparr>qp_handle = 4, qp_qp_num = 0x12\<rparr>" and cfg' = ?cfg and env' = ?env
         and rest = "[RdData [0x51]]" and g = "replicate 16 0"]
    by (simp add: img my_gid_of_zero)
  with run show ?thesis
    by simp
qed

text \<open>
  C3. The global identifier in the descriptor is claimed to be the queried GID when a
  GID index is configured. Here index 0 is configured and \<^verbatim>\<open>ibv_query_gid\<close> succeeds
  with \<open>fe80::1\<close>; the 34 bytes of the descriptor sent (address, remote key,
  queue-pair number, local identifier, GID; the barrier byte \<open>Q\<close> follows) end in
  sixteen zero bytes, because the \<^verbatim>\<open>memset\<close> after the unbraced \<^verbatim>\<open>else\<close> clears
  \<^verbatim>\<open>my_gid\<close> on this path too.
\<close>

theorem connect_qp_sends_zero_gid:
  "bytes_sent
     (connect_qp LittleEndian
        \<lparr>dev_name = None, server_name = None, tcp_port = 19875, ib_port = 1, gid_idx = 0\<rparr>
        \<lparr>query_gid_result = (0, [0xfe, 0x80, 0, 0, 0, 0, 0, 0, 0, 0, 0, 0, 0, 0, 0, 1]),
           tmp_con_data_init = replicate 34 0, temp_char_init = [0], modify_init_ret = 0,
           post_recv_ret = 0, modify_rtr_ret = 0, modify_rts_ret = 0\<rparr>
        \<lparr>port_attr = \<lparr>port_lid = 7\<rparr>,
           remote_props = \<lparr>addr = 0, rkey = 0, qp_num = 0, lid = 0, gid = replicate 16 0\<rparr>,
           ib_ctx = Some 10, pd = Some 11, cq = Some 12,
           qp = Some \<lparr>qp_handle = 4, qp_qp_num = 0x11\<rparr>,
           mr = Some \<lparr>mr_addr = 0x1000, mr_length = 85, mr_lkey = 0x21, mr_rkey = 0x22\<rparr>,
           buf = Some 0x1000, sock = 5\<rparr>
        \<lparr>rx = [RdData (replicate 34 1), RdData [0x51]], tx = [WrAccept 34, WrAccept 1],
           sent = []\<rparr>)
   = Some (0, [0, 0, 0, 0, 0, 0, 0x10, 0, 0, 0, 0, 0x22, 0, 0, 0, 0x11, 0, 7,
               0, 0, 0, 0, 0, 0, 0, 0, 0, 0, 0, 0, 0, 0, 0, 0, 0x51])"
  by code_simp

text \<open>
  C4, as stated, has the server post the receive request. A server (empty address in
  \<^verbatim>\<open>initRDMAConnection\<close>, so \<^verbatim>\<open>config.server_name\<close> is null) whose connect succeeds
  posts none.
\<close>

theorem connect_qp_server_posts_no_receive:
  "receives_posted
     (connect_qp LittleEndian
        (initRDMAConnection_config
           \<lparr>dev_name = None, server_name = None, tcp_port = 19875, ib_port = 1, gid_idx = - 1\<rparr>
           [] 19875)
        \<lparr>query_gid_result = (0, replicate 16 0), tmp_con_data_init = replicate 34 0,
           temp_char_init = [0], modify_init_ret = 0, post_recv_ret = 0, modify_rtr_ret = 0,
           modify_rts_ret = 0\<rparr>
        \<lparr>port_attr = \<lparr>port_lid = 7\<rparr>,
           remote_props = \<lparr>addr = 0, rkey = 0, qp_num = 0, lid = 0, gid = replicate 16 0\<rparr>,
           ib_ctx = Some 10, pd = Some 11, cq = Some 12,
           qp = Some \<lparr>qp_handle = 4, qp_qp_num = 0x11\<rparr>,
           mr = Some \<lparr>mr_addr = 0x1000, mr_length = 85, mr_lkey = 0x21, mr_rkey = 0x22\<rparr>,
           buf = Some 0x1000, sock = 5\<rparr>
        \<lparr>rx = [RdData (replicate 34 1), RdData [0x51]], tx = [WrAccept 34, WrAccept 1],
           sent = []\<rparr>)
   = Some (0, [])"
  by code_simp

text \<open>
  C4, amended. The test before \<^verbatim>\<open>post_receive\<close> is \<^verbatim>\<open>if (config.server_name)\<close>, which
  holds on the client. In every call of \<^verbatim>\<open>connect_qp\<close> that returns, an endpoint in the
  server role posts no receive request and no endpoint posts more than one; when the
  call succeeds, the endpoint in the client role has posted exactly one, and the
  receive requests posted lie between the transition to INIT and the transition to RTR.
\<close>

theorem connect_qp_client_posts_receive:
  assumes "connect_qp bo cfg env res chan = Some (rc, res', chan', tr)"
  shows "(server_name cfg = None \<longrightarrow> filter is_post_recv tr = [])
       \<and> length (filter is_post_recv tr) \<le> 1
       \<and> (rc = 0 \<longrightarrow>
            (\<exists>pre q a1 f1 a2 f2 post.
               tr = pre @ [C_modify_qp q a1 f1] @ filter is_post_recv tr @ [C_modify_qp q a2 f2] @ post
               \<and> qp_state a1 = IBV_QPS_INIT \<and> qp_state a2 = IBV_QPS_RTR
               \<and> filter is_post_recv pre = [] \<and> filter is_post_recv post = [])
            \<and> (server_name cfg \<noteq> None \<longrightarrow> length (filter is_post_recv tr) = 1))"
  using assms by (rule connect_qp_trace)

theorem connect_qp_client_posts_receive_witness:
  "map_option (\<lambda>(rc, posted). (rc, length posted)) (receives_posted
     (connect_qp LittleEndian
        (initRDMAConnection_config
           \<lparr>dev_name = None, server_name = None, tcp_port = 19875, ib_port = 1, gid_idx = - 1\<rparr>
           ''10.0.0.2'' 19875)
        \<lparr>query_gid_result = (0, replicate 16 0), tmp_con_data_init = replicate 34 0,
           temp_char_init = [0], modify_init_ret = 0, post_recv_ret = 0, modify_rtr_ret = 0,
           modify_rts_ret = 0\<rparr>
        \<lparr>port_attr = \<lparr>port_lid = 7\<rparr>,
           remote_props = \<lparr>addr = 0, rkey = 0, qp_num = 0, lid = 0, gid = replicate 16 0\<rparr>,
           ib_ctx = Some 10, pd = Some 11, cq = Some 12,
           qp = Some \<lparr>qp_handle = 4, qp_qp_num = 0x11\<rparr>,
           mr = Some \<lparr>mr_addr = 0x1000, mr_length = 85, mr_lkey = 0x21, mr_rkey = 0x22\<rparr>,
           buf = Some 0x1000, sock = 5\<rparr>
        \<lparr>rx = [RdData (replicate 34 1), RdData [0x51]], tx = [WrAccept 34, WrAccept 1],
           sent = []\<rparr>))
   = Some (0, 1)"
proof -
  let ?cfg = "initRDMAConnection_config
           \<lparr>dev_name = None, server_name = None, tcp_port = 19875, ib_port = 1, gid_idx = - 1\<rparr>
           ''10.0.0.2'' 19875"
  let ?run = "connect_qp LittleEndian ?cfg
        \<lparr>query_gid_result = (0, replicate 16 0), tmp_con_data_init = replicate 34 0,
           temp_char_init = [0], modify_init_ret = 0, post_recv_ret = 0, modify_rtr_ret = 0,
           modify_rts_ret = 0\<rparr>
        \<lparr>port_attr = \<lparr>port_lid = 7\<rparr>,
           remote_props = \<lparr>addr = 0, rkey = 0, qp_num = 0, lid = 0, gid = replicate 16 0\<rparr>,
           ib_ctx = Some 10, pd = Some 11, cq = Some 12,
           qp = Some \<lparr>qp_handle = 4, qp_qp_num = 0x11\<rparr>,
           mr = Some \<lparr>mr_addr = 0x1000, mr_length = 85, mr_lkey = 0x21, mr_rkey = 0x22\<rparr>,
           buf = Some 0x1000, sock = 5\<rparr>
        \<lparr>rx = [RdData (replicate 34 1), RdData [0x51]], tx = [WrAccept 34, WrAccept 1],
           sent = []\<rparr>"
  have "map_option (\<lambda>(rc, res', chan', tr). rc) ?run = Some 0"
    by code_simp
  then obtain res' chan' tr where run: "?run = Some (0, res', chan', tr)"
    by auto
  have "server_name ?cfg \<noteq> None"
    by (simp add: initRDMAConnection_config_def)
  with connect_qp_client_posts_receive [OF run] have "length (filter is_post_recv tr) = 1"
    by simp
  with run show ?thesis
    by (simp add: receives_posted_def)
qed

section \<open>Verification: completion polling\<close>

lemma poll_loop_waiting:
  "list_all (waiting start) pre \<Longrightarrow>
   poll_loop (msec_of start) (pre @ obs) = poll_loop (msec_of start) obs"
  by (induction pre) (auto simp: waiting_def)

lemma poll_loop_found:
  "poll_loop (msec_of start) obs = Some (n, wc) \<Longrightarrow>
   \<exists>pre t post. obs = pre @ (n, wc, t) # post \<and> list_all (waiting start) pre
      \<and> \<not> waiting start (n, wc, t)"
proof (induction obs)
  case Nil
  then show ?case by simp
next
  case (Cons ob obs)
  obtain n' wc' t' where ob: "ob = (n', wc', t')"
    by (cases ob) auto
  show ?case
  proof (cases "waiting start ob")
    case True
    with Cons.prems ob have "poll_loop (msec_of start) obs = Some (n, wc)"
      by (simp add: waiting_def)
    from Cons.IH [OF this] obtain pre t post where
      "obs = pre @ (n, wc, t) # post" "list_all (waiting start) pre" "\<not> waiting start (n, wc, t)"
      by blast
    with True have "ob # obs = (ob # pre) @ (n, wc, t) # post \<and> list_all (waiting start) (ob # pre)
        \<and> \<not> waiting start (n, wc, t)"
      by simp
    then show ?thesis
      by blast
  next
    case False
    with Cons.prems ob have "n' = n" "wc' = wc"
      by (auto simp: waiting_def split: if_splits)
    with False ob have "ob # obs = [] @ (n, wc, t') # obs \<and> list_all (waiting start) []
        \<and> \<not> waiting start (n, wc, t')"
      by simp
    then show ?thesis
      by blast
  qed
qed

lemma poll_completion_at:
  assumes "list_all (waiting start) pre" and "\<not> waiting start (n, wc, t)"
  shows "poll_completion start (pre @ (n, wc, t) # post) =
           Some (if n < 0 then 1 else if n = 0 then 1
                 else if status wc \<noteq> IBV_WC_SUCCESS then 1 else 0)"
  using assms
  by (auto simp: poll_completion_def poll_loop_waiting waiting_def)

text \<open>
  C8. \<^verbatim>\<open>poll_completion\<close> returns 0 only when a poll finds a completion with success
  status while every earlier clock reading of the call was less than 2000 ms after the
  first; and then it does return 0. A poll that finds nothing at a clock reading
  2000 ms or more after the first (in the unsigned arithmetic of the code, which also
  counts a reading before the first), and a completion that carries another status,
  both make it return 1; it returns nothing but 0 and 1.
\<close>

theorem poll_completion_results:
  "(poll_completion start obs = Some 0 \<longrightarrow>
      (\<exists>pre n wc t post. obs = pre @ (n, wc, t) # post \<and> list_all (waiting start) pre
          \<and> 0 < n \<and> status wc = IBV_WC_SUCCESS))
   \<and> (list_all (waiting start) pre \<and> 0 < n \<and> status wc = IBV_WC_SUCCESS \<longrightarrow>
        poll_completion start (pre @ (n, wc, t) # post) = Some 0)
   \<and> (list_all (waiting start) pre \<and> MAX_POLL_CQ_TIMEOUT \<le> msec_of t - msec_of start \<longrightarrow>
        poll_completion start (pre @ (0, wc, t) # post) = Some 1)
   \<and> (list_all (waiting start) pre \<and> 0 < n \<and> status wc \<noteq> IBV_WC_SUCCESS \<longrightarrow>
        poll_completion start (pre @ (n, wc, t) # post) = Some 1)
   \<and> (poll_completion start obs = Some rc \<longrightarrow> rc = 0 \<or> rc = 1)"
proof (intro conjI impI)
  assume "poll_completion start obs = Some 0"
  then obtain n wc where loop: "poll_loop (msec_of start) obs = Some (n, wc)"
    and ok: "0 < n" "status wc = IBV_WC_SUCCESS"
    by (auto simp: poll_completion_def split: option.splits if_splits)
  from poll_loop_found [OF loop] ok
  show "\<exists>pre n wc t post. obs = pre @ (n, wc, t) # post \<and> list_all (waiting start) pre
          \<and> 0 < n \<and> status wc = IBV_WC_SUCCESS"
    by blast
next
  assume "list_all (waiting start) pre \<and> 0 < n \<and> status wc = IBV_WC_SUCCESS"
  then show "poll_completion start (pre @ (n, wc, t) # post) = Some 0"
    by (simp add: poll_completion_at waiting_def)
next
  assume a: "list_all (waiting start) pre \<and> MAX_POLL_CQ_TIMEOUT \<le> msec_of t - msec_of start"
  then have "\<not> waiting start (0, wc, t)"
    by (simp add: waiting_def not_less)
  with a show "poll_completion start (pre @ (0, wc, t) # post) = Some 1"
    by (simp add: poll_completion_at)
next
  assume "list_all (waiting start) pre \<and> 0 < n \<and> status wc \<noteq> IBV_WC_SUCCESS"
  then show "poll_completion start (pre @ (n, wc, t) # post) = Some 1"
    by (simp add: poll_completion_at waiting_def)
next
  assume "poll_completion start obs = Some rc"
  then show "rc = 0 \<or> rc = 1"
    by (auto simp: poll_completion_def split: option.splits if_splits)
qed

theorem poll_completion_results_witness:
  "poll_completion \<lparr>tv_sec = 10, tv_usec = 500000\<rparr>
     [(0, \<lparr>status = 0\<rparr>, \<lparr>tv_sec = 11, tv_usec = 0\<rparr>),
      (0, \<lparr>status = 0\<rparr>, \<lparr>tv_sec = 12, tv_usec = 500000\<rparr>)] = Some 1
   \<and> poll_completion \<lparr>tv_sec = 10, tv_usec = 500000\<rparr>
     [(0, \<lparr>status = 0\<rparr>, \<lparr>tv_sec = 11, tv_usec = 0\<rparr>),
      (1, \<lparr>status = 10\<rparr>, \<lparr>tv_sec = 11, tv_usec = 1000\<rparr>)] = Some 1
   \<and> poll_completion \<lparr>tv_sec = 10, tv_usec = 500000\<rparr>
     [(0, \<lparr>status = 0\<rparr>, \<lparr>tv_sec = 11, tv_usec = 0\<rparr>),
      (1, \<lparr>status = 0\<rparr>, \<lparr>tv_sec = 11, tv_usec = 1000\<rparr>)] = Some 0"
proof -
  let ?start = "\<lparr>tv_sec = 10, tv_usec = 500000\<rparr>"
  let ?pre = "[(0, \<lparr>status = 0\<rparr>, \<lparr>tv_sec = 11, tv_usec = 0\<rparr>)]"
  have pre: "list_all (waiting ?start) ?pre"
    by (simp add: waiting_def msec_of_def MAX_POLL_CQ_TIMEOUT_def)
  have late: "MAX_POLL_CQ_TIMEOUT \<le> msec_of \<lparr>tv_sec = 12, tv_usec = 500000\<rparr> - msec_of ?start"
    by (simp add: msec_of_def MAX_POLL_CQ_TIMEOUT_def)
  show ?thesis
    using poll_completion_results
      [where start = ?start and pre = ?pre and wc = "\<lparr>status = 0\<rparr>"
         and t = "\<lparr>tv_sec = 12, tv_usec = 500000\<rparr>" and post = "[]" and n = 1]
      poll_completion_results
      [where start = ?start and pre = ?pre and wc = "\<lparr>status = 10\<rparr>"
         and t = "\<lparr>tv_sec = 11, tv_usec = 1000\<rparr>" and post = "[]" and n = 1]
      poll_completion_results
      [where start = ?start and pre = ?pre and wc = "\<lparr>status = 0\<rparr>"
         and t = "\<lparr>tv_sec = 11, tv_usec = 1000\<rparr>" and post = "[]" and n = 1]
      pre late
    by (simp add: IBV_WC_SUCCESS_def)
qed

section \<open>Verification: creating and destroying the resources\<close>

lemma release_step:
  assumes "t = p \<and> rc = (if \<exists>c \<in> set p. release_ret env c \<noteq> 0 then 1 else 0)"
    and "(case x of
            Some h \<Rightarrow> (if release_ret env (c h) \<noteq> 0 then 1 else rc, t @ [c h])
          | None \<Rightarrow> (rc, t)) = (rc', t')"
  shows "t' = p @ (case x of Some h \<Rightarrow> [c h] | None \<Rightarrow> [])
       \<and> rc' = (if \<exists>c' \<in> set (p @ (case x of Some h \<Rightarrow> [c h] | None \<Rightarrow> [])).
                      release_ret env c' \<noteq> 0 then 1 else 0)"
  using assms by (cases x) auto

text \<open>
  C7. \<^verbatim>\<open>resources_destroy\<close> calls the release of each populated component (queue pair,
  memory region, buffer, completion queue, protection domain, device context, socket),
  in this order, skips the components that are not populated and does not stop at a
  release that fails; it returns 1 when one of the releases it called returned
  non-zero and 0 otherwise, and \<^verbatim>\<open>Destroy\<close> returns an error in exactly that case.
\<close>

theorem resources_destroy_attempts_all:
  "snd (resources_destroy env res) =
      (case qp res of Some q \<Rightarrow> [C_destroy_qp q] | None \<Rightarrow> [])
      @ (case mr res of Some m \<Rightarrow> [C_dereg_mr m] | None \<Rightarrow> [])
      @ (case buf res of Some b \<Rightarrow> [C_free b] | None \<Rightarrow> [])
      @ (case cq res of Some c \<Rightarrow> [C_destroy_cq c] | None \<Rightarrow> [])
      @ (case pd res of Some p \<Rightarrow> [C_dealloc_pd p] | None \<Rightarrow> [])
      @ (case ib_ctx res of Some c \<Rightarrow> [C_close_device c] | None \<Rightarrow> [])
      @ (if sock res \<ge> 0 then [C_close (sock res)] else [])
   \<and> fst (resources_destroy env res) =
        (if \<exists>c \<in> set (snd (resources_destroy env res)). release_ret env c \<noteq> 0 then 1 else 0)
   \<and> ((Destroy env res \<noteq> None) =
        (\<exists>c \<in> set (snd (resources_destroy env res)). release_ret env c \<noteq> 0))"
proof -
  define q1 where "q1 = [] @ (case qp res of Some q \<Rightarrow> [C_destroy_qp q] | None \<Rightarrow> [])"
  define q2 where "q2 = q1 @ (case mr res of Some m \<Rightarrow> [C_dereg_mr m] | None \<Rightarrow> [])"
  define q3 where "q3 = q2 @ (case buf res of Some b \<Rightarrow> [C_free b] | None \<Rightarrow> [])"
  define q4 where "q4 = q3 @ (case cq res of Some c \<Rightarrow> [C_destroy_cq c] | None \<Rightarrow> [])"
  define q5 where "q5 = q4 @ (case pd res of Some p \<Rightarrow> [C_dealloc_pd p] | None \<Rightarrow> [])"
  define q6 where "q6 = q5 @ (case ib_ctx res of Some c \<Rightarrow> [C_close_device c] | None \<Rightarrow> [])"
  define q7 where "q7 = q6 @ (if sock res \<ge> 0 then [C_close (sock res)] else [])"
  let ?I = "\<lambda>t p rc. t = p \<and> rc = (if \<exists>c \<in> set p. release_ret env c \<noteq> 0 then 1 else (0::int))"
  have i0: "?I [] [] 0"
    by simp
  obtain rc1 t1 where s1: "(case qp res of
      Some q \<Rightarrow> (if destroy_qp_ret env \<noteq> 0 then 1 else 0, [C_destroy_qp q])
    | None \<Rightarrow> (0::int, [])) = (rc1, t1)"
    by fastforce
  have i1: "?I t1 q1 rc1"
    unfolding q1_def by (rule release_step [where c = C_destroy_qp, OF i0]) (use s1 in \<open>auto split: option.splits if_splits\<close>)
  obtain rc2 t2 where s2: "(case mr res of
      Some m \<Rightarrow> (if dereg_mr_ret env \<noteq> 0 then 1 else rc1, t1 @ [C_dereg_mr m])
    | None \<Rightarrow> (rc1, t1)) = (rc2, t2)"
    by fastforce
  have i2: "?I t2 q2 rc2"
    unfolding q2_def by (rule release_step [where c = C_dereg_mr, OF i1]) (use s2 in \<open>auto split: option.splits if_splits\<close>)
  obtain t3 where s3: "(case buf res of Some b \<Rightarrow> t2 @ [C_free b] | None \<Rightarrow> t2) = t3"
    by simp
  have i3: "?I t3 q3 rc2"
    unfolding q3_def by (rule release_step [where c = C_free, OF i2]) (use s3 in \<open>auto split: option.splits if_splits\<close>)
  obtain rc4 t4 where s4: "(case cq res of
      Some c \<Rightarrow> (if destroy_cq_ret env \<noteq> 0 then 1 else rc2, t3 @ [C_destroy_cq c])
    | None \<Rightarrow> (rc2, t3)) = (rc4, t4)"
    by fastforce
  have i4: "?I t4 q4 rc4"
    unfolding q4_def by (rule release_step [where c = C_destroy_cq, OF i3]) (use s4 in \<open>auto split: option.splits if_splits\<close>)
  obtain rc5 t5 where s5: "(case pd res of
      Some p \<Rightarrow> (if dealloc_pd_ret env \<noteq> 0 then 1 else rc4, t4 @ [C_dealloc_pd p])
    | None \<Rightarrow> (rc4, t4)) = (rc5, t5)"
    by fastforce
  have i5: "?I t5 q5 rc5"
    unfolding q5_def by (rule release_step [where c = C_dealloc_pd, OF i4]) (use s5 in \<open>auto split: option.splits if_splits\<close>)
  obtain rc6 t6 where s6: "(case ib_ctx res of
      Some c \<Rightarrow> (if close_device_ret env \<noteq> 0 then 1 else rc5, t5 @ [C_close_device c])
    | None \<Rightarrow> (rc5, t5)) = (rc6, t6)"
    by fastforce
  have i6: "?I t6 q6 rc6"
    unfolding q6_def by (rule release_step [where c = C_close_device, OF i5]) (use s6 in \<open>auto split: option.splits if_splits\<close>)
  obtain rc7 t7 where s7: "(case (if sock res \<ge> 0 then Some (sock res) else None) of
      Some fd \<Rightarrow> (if release_ret env (C_close fd) \<noteq> 0 then 1 else rc6, t6 @ [C_close fd])
    | None \<Rightarrow> (rc6, t6)) = (rc7, t7)"
    by fastforce
  have i7: "?I t7 (q6 @ (case (if sock res \<ge> 0 then Some (sock res) else None) of
      Some fd \<Rightarrow> [C_close fd] | None \<Rightarrow> [])) rc7"
    by (rule release_step [where c = C_close, OF i6]) (rule s7)
  have q7: "q6 @ (case (if sock res \<ge> 0 then Some (sock res) else None) of
      Some fd \<Rightarrow> [C_close fd] | None \<Rightarrow> []) = q7"
    by (simp add: q7_def)
  have "resources_destroy env res =
      (if sock res \<ge> 0 then (if close_ret env \<noteq> 0 then 1 else rc6, t6 @ [C_close (sock res)])
       else (rc6, t6))"
    by (simp only: resources_destroy_def Let_def s1 s2 s3 s4 s5 s6 prod.case)
  also have "\<dots> = (rc7, t7)"
    using s7 by (simp split: if_splits)
  finally have run: "resources_destroy env res = (rc7, t7)" .
  from i7 have tr: "snd (resources_destroy env res) = q7"
    and rc: "fst (resources_destroy env res) =
        (if \<exists>c \<in> set (snd (resources_destroy env res)). release_ret env c \<noteq> 0 then 1 else 0)"
    unfolding q7 by (simp_all add: run)
  from rc have "(Destroy env res \<noteq> None) =
        (\<exists>c \<in> set (snd (resources_destroy env res)). release_ret env c \<noteq> 0)"
    by (simp add: Destroy_def)
  moreover have "snd (resources_destroy env res) =
      (case qp res of Some q \<Rightarrow> [C_destroy_qp q] | None \<Rightarrow> [])
      @ (case mr res of Some m \<Rightarrow> [C_dereg_mr m] | None \<Rightarrow> [])
      @ (case buf res of Some b \<Rightarrow> [C_free b] | None \<Rightarrow> [])
      @ (case cq res of Some c \<Rightarrow> [C_destroy_cq c] | None \<Rightarrow> [])
      @ (case pd res of Some p \<Rightarrow> [C_dealloc_pd p] | None \<Rightarrow> [])
      @ (case ib_ctx res of Some c \<Rightarrow> [C_close_device c] | None \<Rightarrow> [])
      @ (if sock res \<ge> 0 then [C_close (sock res)] else [])"
    unfolding tr q7_def q6_def q5_def q4_def q3_def q2_def q1_def by simp
  ultimately show ?thesis
    using rc by blast
qed

theorem resources_destroy_attempts_all_witness:
  "resources_destroy
     \<lparr>destroy_qp_ret = 22, dereg_mr_ret = 0, destroy_cq_ret = 0, dealloc_pd_ret = 0,
        close_device_ret = 0, close_ret = 0\<rparr>
     \<lparr>port_attr = \<lparr>port_lid = 7\<rparr>,
        remote_props = \<lparr>addr = 0, rkey = 0, qp_num = 0, lid = 0, gid = replicate 16 0\<rparr>,
        ib_ctx = Some 10, pd = None, cq = Some 12,
        qp = Some \<lparr>qp_handle = 4, qp_qp_num = 0x11\<rparr>, mr = None, buf = None, sock = 5\<rparr>
   = (1, [C_destroy_qp \<lparr>qp_handle = 4, qp_qp_num = 0x11\<rparr>, C_destroy_cq 12,
          C_close_device 10, C_close 5])"
  using resources_destroy_attempts_all
    [where env = "\<lparr>destroy_qp_ret = 22, dereg_mr_ret = 0, destroy_cq_ret = 0,
                    dealloc_pd_ret = 0, close_device_ret = 0, close_ret = 0\<rparr>"
       and res = "\<lparr>port_attr = \<lparr>port_lid = 7\<rparr>,
        remote_props = \<lparr>addr = 0, rkey = 0, qp_num = 0, lid = 0, gid = replicate 16 0\<rparr>,
        ib_ctx = Some 10, pd = None, cq = Some 12,
        qp = Some \<lparr>qp_handle = 4, qp_qp_num = 0x11\<rparr>, mr = None, buf = None, sock = 5\<rparr>"]
  by (simp add: prod_eq_iff)

text \<open>
  C6. When \<^verbatim>\<open>resources_create\<close>, called on a resource set with no handle in it (as
  both callers pass it), returns non-zero: its calls are those of the body followed by
  those of the rollback; the rollback releases exactly the handles the body still
  held, the last acquired first, which is the order queue pair, memory region, buffer,
  completion queue, protection domain, device context, device list, socket; it
  acquires nothing; no handle acquired in the call is held at the end; and every
  handle field is null and the socket field is \<open>-1\<close> (or the negative result of a
  failed \<^verbatim>\<open>sock_connect\<close>).
\<close>

theorem resources_create_rolls_back:
  assumes "resources_create cfg env res0 = (rc, res', cfg', tr)" and "rc \<noteq> 0"
    and "qp res0 = None" "mr res0 = None" "buf res0 = None" "cq res0 = None" "pd res0 = None"
      "ib_ctx res0 = None"
  shows "\<exists>body rollback. tr = body @ rollback
         \<and> body = snd (snd (snd (snd (resources_create_body cfg env res0))))
         \<and> concat (map releases rollback) = rev (held [] body)
         \<and> sorted_wrt (<) (map release_rank (concat (map releases rollback)))
         \<and> concat (map acquires rollback) = []
         \<and> held [] tr = []
         \<and> qp res' = None \<and> mr res' = None \<and> buf res' = None \<and> cq res' = None
         \<and> pd res' = None \<and> ib_ctx res' = None
         \<and> sock res' = (if 0 \<le> sock_connect_ret env then - 1 else sock_connect_ret env)"
  using assms
  by (auto simp: resources_create_def resources_create_body_def resources_create_exit_def Let_def
      split: option.splits if_splits prod.splits)


theorem resources_create_rolls_back_witness:
  "resources_create
     \<lparr>dev_name = None, server_name = None, tcp_port = 19875, ib_port = 1, gid_idx = - 1\<rparr>
     \<lparr>sock_connect_ret = 5, get_device_list_ret = Some [''mlx5_0''], open_device_ret = Some 10,
        query_port_ret = (0, \<lparr>port_lid = 7\<rparr>), alloc_pd_ret = None, create_cq_ret = Some 12,
        malloc_ret = Some 0x1000,
        reg_mr_ret = Some \<lparr>mr_addr = 0x1000, mr_length = 85, mr_lkey = 0x21, mr_rkey = 0x22\<rparr>,
        create_qp_ret = Some \<lparr>qp_handle = 4, qp_qp_num = 0x11\<rparr>\<rparr>
     \<lparr>port_attr = \<lparr>port_lid = 0\<rparr>,
        remote_props = \<lparr>addr = 0, rkey = 0, qp_num = 0, lid = 0, gid = replicate 16 0\<rparr>,
        ib_ctx = None, pd = None, cq = None, qp = None, mr = None, buf = None, sock = 0\<rparr>
   = (1,
      \<lparr>port_attr = \<lparr>port_lid = 7\<rparr>,
        remote_props = \<lparr>addr = 0, rkey = 0, qp_num = 0, lid = 0, gid = replicate 16 0\<rparr>,
        ib_ctx = None, pd = None, cq = None, qp = None, mr = None, buf = None, sock = - 1\<rparr>,
      \<lparr>dev_name = Some ''mlx5_0'', server_name = None, tcp_port = 19875, ib_port = 1,
         gid_idx = - 1\<rparr>,
      [C_sock_connect 5, C_get_device_list (Some [''mlx5_0'']), C_open_device (Some 10),
       C_free_device_list, C_query_port 0, C_alloc_pd None, C_close_device 10, C_close 5])
   \<and> held [] [C_sock_connect 5, C_get_device_list (Some [''mlx5_0'']), C_open_device (Some 10),
       C_free_device_list, C_query_port 0, C_alloc_pd None, C_close_device 10, C_close 5] = []"
proof -
  let ?cfg = "\<lparr>dev_name = None, server_name = None, tcp_port = 19875, ib_port = 1, gid_idx = - 1\<rparr>"
  let ?env = "\<lparr>sock_connect_ret = 5, get_device_list_ret = Some [''mlx5_0''], open_device_ret = Some 10,
        query_port_ret = (0, \<lparr>port_lid = 7\<rparr>), alloc_pd_ret = None, create_cq_ret = Some 12,
        malloc_ret = Some 0x1000,
        reg_mr_ret = Some \<lparr>mr_addr = 0x1000, mr_length = 85, mr_lkey = 0x21, mr_rkey = 0x22\<rparr>,
        create_qp_ret = Some \<lparr>qp_handle = 4, qp_qp_num = 0x11\<rparr>\<rparr>"
  let ?res0 = "\<lparr>port_attr = \<lparr>port_lid = 0\<rparr>,
        remote_props = \<lparr>addr = 0, rkey = 0, qp_num = 0, lid = 0, gid = replicate 16 0\<rparr>,
        ib_ctx = None, pd = None, cq = None, qp = None, mr = None, buf = None, sock = 0\<rparr>"
  let ?tr = "[C_sock_connect 5, C_get_device_list (Some [''mlx5_0'']), C_open_device (Some 10),
       C_free_device_list, C_query_port 0, C_alloc_pd None, C_close_device 10, C_close 5]"
  have run: "resources_create ?cfg ?env ?res0 =
      (1,
       \<lparr>port_attr = \<lparr>port_lid = 7\<rparr>,
         remote_props = \<lparr>addr = 0, rkey = 0, qp_num = 0, lid = 0, gid = replicate 16 0\<rparr>,
         ib_ctx = None, pd = None, cq = None, qp = None, mr = None, buf = None, sock = - 1\<rparr>,
       \<lparr>dev_name = Some ''mlx5_0'', server_name = None, tcp_port = 19875, ib_port = 1,
          gid_idx = - 1\<rparr>,
       ?tr)"
    by code_simp
  from resources_create_rolls_back [OF run] have "held [] ?tr = []"
    by simp
  with run show ?thesis
    by simp
qed

section \<open>Verification: data transfer\<close>

lemma poll_loop_status:
  "poll_loop s (map (\<lambda>(r, t). (r, \<lparr>status = st\<rparr>, t)) obs) = Some (n, wc) \<Longrightarrow> status wc = st"
  by (induction obs) (auto split: if_splits)

lemma polled_success:
  assumes "polled env st = Some 0"
  shows "st = IBV_WC_SUCCESS"
proof -
  from assms obtain n wc where
    loop: "poll_loop (msec_of (poll_start env))
             (map (\<lambda>(r, t). (r, \<lparr>status = st\<rparr>, t)) (poll_obs env)) = Some (n, wc)"
    and ok: "status wc = IBV_WC_SUCCESS"
    by (auto simp: polled_def poll_completion_def split: option.splits if_splits)
  from poll_loop_status [OF loop] ok show ?thesis
    by simp
qed

lemma rdma_transfer_success:
  assumes "rdma_transfer wr loc rem = (IBV_WC_SUCCESS, loc', rem')"
    and "sg_list wr = [sge]"
  shows "\<exists>lblock lm rblock rm.
           p_mem loc (sge_addr sge) = Some lblock \<and> mr (p_res loc) = Some lm
         \<and> sge_addr sge = mr_addr lm \<and> sge_length sge \<le> length lblock
         \<and> p_mem rem (rdma_remote_addr wr) = Some rblock \<and> mr (p_res rem) = Some rm
         \<and> rdma_remote_addr wr = mr_addr rm \<and> sge_length sge \<le> length rblock
         \<and> (case opcode wr of
               IBV_WR_RDMA_WRITE \<Rightarrow>
                 loc' = loc
                 \<and> rem' = rem\<lparr>p_mem := (p_mem rem)(rdma_remote_addr wr \<mapsto>
                        take (sge_length sge) lblock @ drop (sge_length sge) rblock)\<rparr>
             | IBV_WR_RDMA_READ \<Rightarrow>
                 rem' = rem
                 \<and> loc' = loc\<lparr>p_mem := (p_mem loc)(sge_addr sge \<mapsto>
                        take (sge_length sge) rblock @ drop (sge_length sge) lblock)\<rparr>
             | IBV_WR_SEND \<Rightarrow> False)"
  using assms
  by (auto simp: rdma_transfer_def IBV_WC_SUCCESS_def IBV_WC_LOC_PROT_ERR_def
      IBV_WC_REM_ACCESS_ERR_def split: option.splits if_splits ibv_wr_opcode.splits)

lemma sg_list_send_wr: "sg_list (send_wr res b m opc) = [buf_sge b m]"
  by (simp add: send_wr_def Let_def)

lemma opcode_send_wr: "opcode (send_wr res b m opc) = opc"
  by (simp add: send_wr_def Let_def)

lemma rdma_transfer_p_res:
  "rdma_transfer wr loc rem = (st, loc', rem') \<Longrightarrow>
   p_res loc' = p_res loc \<and> p_res rem' = p_res rem"
  by (auto simp: rdma_transfer_def split: list.splits option.splits if_splits
      ibv_wr_opcode.splits)

lemma Write_p_res:
  assumes "Write env loc rem contents character = Some (e, loc', rem')"
  shows "p_res rem' = p_res rem"
proof -
  from assms consider "rem' = rem"
    | wr loc1 st loc2 where "rdma_transfer wr loc1 rem = (st, loc2, rem')"
    by (auto simp: Write_def Let_def split: option.splits if_splits prod.splits)
  then show ?thesis
    by cases (auto dest: rdma_transfer_p_res)
qed

lemma Write_success:
  assumes "Write env loc rem contents character = Some (None, loc', rem')"
  shows "\<exists>m block block'. mr (p_res loc') = Some m \<and> p_mem loc' (mr_addr m) = Some block'
         \<and> p_mem loc (mr_addr m) = Some block
         \<and> strcpy block (CString contents) = Some block' \<and> MSG_SIZE \<le> length block'"
proof -
  from assms obtain ch1 b m q block block' st loc2 rem2 where
    parts: "buf (p_res loc) = Some b" "mr (p_res loc) = Some m" "p_mem loc b = Some block"
      "strcpy block (CString contents) = Some block'"
    and xfer: "rdma_transfer (send_wr (p_res (loc\<lparr>p_chan := ch1, p_mem := (p_mem loc)(b \<mapsto> block')\<rparr>))
                 b m IBV_WR_RDMA_WRITE)
               (loc\<lparr>p_chan := ch1, p_mem := (p_mem loc)(b \<mapsto> block')\<rparr>) rem = (st, loc2, rem2)"
    and poll: "polled env st = Some 0"
    and out: "p_res loc' = p_res loc2" "p_mem loc' = p_mem loc2"
    by (auto simp: Write_def Let_def split: option.splits if_splits prod.splits)
  let ?loc1 = "loc\<lparr>p_chan := ch1, p_mem := (p_mem loc)(b \<mapsto> block')\<rparr>"
  from polled_success [OF poll] xfer
  have "rdma_transfer (send_wr (p_res ?loc1) b m IBV_WR_RDMA_WRITE) ?loc1 rem
          = (IBV_WC_SUCCESS, loc2, rem2)"
    by simp
  from rdma_transfer_success [OF this sg_list_send_wr]
  have "b = mr_addr m" "MSG_SIZE \<le> length block'" "loc2 = ?loc1"
    using parts by (auto simp: opcode_send_wr buf_sge_def)
  with parts out show ?thesis
    by auto
qed

lemma Read_success:
  assumes "Read env loc rem character = Some ((s, None), loc', rem')"
    and "buf (p_res loc) \<noteq> None"
  shows "\<exists>rm rblock lblock. mr (p_res rem) = Some rm \<and> p_mem rem (mr_addr rm) = Some rblock
         \<and> MSG_SIZE \<le> length rblock
         \<and> GoString (take MSG_SIZE rblock @ drop MSG_SIZE lblock) = Some s"
proof -
  from assms(2) obtain b where b: "buf (p_res loc) = Some b"
    by auto
  from assms(1) b obtain ch1 m st loc2 rem2 where
    parts: "mr (p_res loc) = Some m"
    and xfer: "rdma_transfer (send_wr (p_res (loc\<lparr>p_chan := ch1\<rparr>)) b m IBV_WR_RDMA_READ)
               (loc\<lparr>p_chan := ch1\<rparr>) rem = (st, loc2, rem2)"
    and poll: "polled env st = Some 0"
    and out: "case buf (p_res loc2) of
                None \<Rightarrow> s = []
              | Some a \<Rightarrow> (\<exists>block. p_mem loc2 a = Some block \<and> GoString block = Some s)"
    by (auto simp: Read_def Let_def ptr_val_def split: option.splits if_splits prod.splits)
  let ?loc1 = "loc\<lparr>p_chan := ch1\<rparr>"
  from polled_success [OF poll] xfer
  have "rdma_transfer (send_wr (p_res ?loc1) b m IBV_WR_RDMA_READ) ?loc1 rem
          = (IBV_WC_SUCCESS, loc2, rem2)"
    by simp
  from rdma_transfer_success [OF this sg_list_send_wr] obtain lblock rblock rm where
    "p_mem rem (mr_addr rm) = Some rblock" "mr (p_res rem) = Some rm"
    "MSG_SIZE \<le> length rblock"
    "loc2 = ?loc1\<lparr>p_mem := (p_mem ?loc1)(b \<mapsto> take MSG_SIZE rblock @ drop MSG_SIZE lblock)\<rparr>"
    by (auto simp: opcode_send_wr buf_sge_def)
  with out b show ?thesis
    by auto
qed

lemma strcpy_GoString:
  assumes "strcpy block (CString payload) = Some block'" and "0 \<notin> set payload"
    and "length payload < n"
  shows "GoString (take n block' @ rest) = Some payload"
proof -
  from assms(2) have tw: "takeWhile (\<lambda>b. b \<noteq> 0) (payload @ [0]) = payload"
    by (induction payload) auto
  with assms(1) have b': "block' = payload @ [0] @ drop (length payload + 1) block"
    by (auto simp: strcpy_def CString_def Let_def split: if_splits)
  have "take n block' = payload @ 0 # take (n - length payload - 1) (drop (length payload + 1) block)"
    using assms(3) by (simp add: b' take_Cons')
  moreover from assms(2) have "takeWhile (\<lambda>b. b \<noteq> 0) (payload @ 0 # xs) = payload" for xs
    by (induction payload) auto
  ultimately show ?thesis
    by (simp add: GoString_def)
qed

text \<open>
  C1. For every payload shorter than the buffer capacity minus 1 and free of NUL
  bytes: when \<^verbatim>\<open>Write\<close> on one peer returns no error and \<^verbatim>\<open>Read\<close> on the other peer
  (whose resource set has its buffer), called next, returns no error, the string
  \<^verbatim>\<open>Read\<close> returns is the payload. The two calls run one after the other, as the
  claim has them.
\<close>

theorem Write_then_Read_returns_payload:
  assumes "Write envW A B payload roleA = Some (None, A', B')"
    and "Read envR B' A' roleB = Some ((s, None), B'', A'')"
    and "buf (p_res B) \<noteq> None"
    and "length payload < MSG_SIZE - 1" and "0 \<notin> set payload"
  shows "s = payload"
proof -
  from Write_p_res [OF assms(1)] assms(3) have b: "buf (p_res B') \<noteq> None"
    by simp
  from Write_success [OF assms(1)] obtain m block block' where
    w: "mr (p_res A') = Some m" "p_mem A' (mr_addr m) = Some block'"
      "strcpy block (CString payload) = Some block'"
    by blast
  from Read_success [OF assms(2) b] w obtain lblock where
    "GoString (take MSG_SIZE block' @ drop MSG_SIZE lblock) = Some s"
    by auto
  moreover have "GoString (take MSG_SIZE block' @ drop MSG_SIZE lblock) = Some payload"
    using w(3) assms(5) by (rule strcpy_GoString) (use assms(4) in simp)
  ultimately show ?thesis
    by simp
qed


theorem Write_then_Read_returns_payload_witness:
  "(case Write \<lparr>post_send_ret = 0, poll_start = \<lparr>tv_sec = 0, tv_usec = 0\<rparr>,
                 poll_obs = [(1, \<lparr>tv_sec = 0, tv_usec = 100\<rparr>)]\<rparr>
          \<lparr>p_res = \<lparr>port_attr = \<lparr>port_lid = 7\<rparr>,
              remote_props = \<lparr>addr = 0x2000, rkey = 0x32, qp_num = 0x12, lid = 9,
                                gid = replicate 16 0\<rparr>,
              ib_ctx = Some 10, pd = Some 11, cq = Some 12,
              qp = Some \<lparr>qp_handle = 4, qp_qp_num = 0x11\<rparr>,
              mr = Some \<lparr>mr_addr = 0x1000, mr_length = 85, mr_lkey = 0x21, mr_rkey = 0x22\<rparr>,
              buf = Some 0x1000, sock = 5\<rparr>,
            p_mem = [0x1000 \<mapsto> replicate 85 0],
            p_chan = \<lparr>rx = [RdData [0x52], RdData [0x52]], tx = [WrAccept 1, WrAccept 1],
                       sent = []\<rparr>\<rparr>
          \<lparr>p_res = \<lparr>port_attr = \<lparr>port_lid = 9\<rparr>,
              remote_props = \<lparr>addr = 0x1000, rkey = 0x22, qp_num = 0x11, lid = 7,
                                gid = replicate 16 0\<rparr>,
              ib_ctx = Some 10, pd = Some 11, cq = Some 12,
              qp = Some \<lparr>qp_handle = 4, qp_qp_num = 0x12\<rparr>,
              mr = Some \<lparr>mr_addr = 0x2000, mr_length = 85, mr_lkey = 0x31, mr_rkey = 0x32\<rparr>,
              buf = Some 0x2000, sock = 6\<rparr>,
            p_mem = [0x2000 \<mapsto> replicate 85 0],
            p_chan = \<lparr>rx = [RdData [0x52], RdData [0x52]], tx = [WrAccept 1, WrAccept 1],
                       sent = []\<rparr>\<rparr>
          [0x68, 0x65, 0x6c, 0x6c, 0x6f] ''client'' of
      Some (None, A', B') \<Rightarrow>
        (case Read \<lparr>post_send_ret = 0, poll_start = \<lparr>tv_sec = 0, tv_usec = 0\<rparr>,
                     poll_obs = [(1, \<lparr>tv_sec = 0, tv_usec = 100\<rparr>)]\<rparr> B' A' ''server'' of
           Some ((s, None), B'', A'') \<Rightarrow> Some s
         | _ \<Rightarrow> None)
    | _ \<Rightarrow> None) = Some [0x68, 0x65, 0x6c, 0x6c, 0x6f]"
proof -
  let ?env = "\<lparr>post_send_ret = 0, poll_start = \<lparr>tv_sec = 0, tv_usec = 0\<rparr>,
                 poll_obs = [(1, \<lparr>tv_sec = 0, tv_usec = 100\<rparr>)]\<rparr>"
  let ?A = "\<lparr>p_res = \<lparr>port_attr = \<lparr>port_lid = 7\<rparr>,
              remote_props = \<lparr>addr = 0x2000, rkey = 0x32, qp_num = 0x12, lid = 9,
                                gid = replicate 16 0\<rparr>,
              ib_ctx = Some 10, pd = Some 11, cq = Some 12,
              qp = Some \<lparr>qp_handle = 4, qp_qp_num = 0x11\<rparr>,
              mr = Some \<lparr>mr_addr = 0x1000, mr_length = 85, mr_lkey = 0x21, mr_rkey = 0x22\<rparr>,
              buf = Some 0x1000, sock = 5\<rparr>,
            p_mem = [0x1000 \<mapsto> replicate 85 0],
            p_chan = \<lparr>rx = [RdData [0x52], RdData [0x52]], tx = [WrAccept 1, WrAccept 1],
                       sent = []\<rparr>\<rparr>"
  let ?B = "\<lparr>p_res = \<lparr>port_attr = \<lparr>port_lid = 9\<rparr>,
              remote_props = \<lparr>addr = 0x1000, rkey = 0x22, qp_num = 0x11, lid = 7,
                                gid = replicate 16 0\<rparr>,
              ib_ctx = Some 10, pd = Some 11, cq = Some 12,
              qp = Some \<lparr>qp_handle = 4, qp_qp_num = 0x12\<rparr>,
              mr = Some \<lparr>mr_addr = 0x2000, mr_length = 85, mr_lkey = 0x31, mr_rkey = 0x32\<rparr>,
              buf = Some 0x2000, sock = 6\<rparr>,
            p_mem = [0x2000 \<mapsto> replicate 85 0],
            p_chan = \<lparr>rx = [RdData [0x52], RdData [0x52]], tx = [WrAccept 1, WrAccept 1],
                       sent = []\<rparr>\<rparr>"
  let ?payload = "[0x68, 0x65, 0x6c, 0x6c, 0x6f] :: byte list"
  let ?run = "case Write ?env ?A ?B ?payload ''client'' of
      Some (None, A', B') \<Rightarrow>
        (case Read ?env B' A' ''server'' of
           Some ((s, None), B'', A'') \<Rightarrow> Some s
         | _ \<Rightarrow> None)
    | _ \<Rightarrow> None"
  have "?run \<noteq> None"
    by code_simp
  then obtain A' B' s B'' A'' where
    w: "Write ?env ?A ?B ?payload ''client'' = Some (None, A', B')"
    and r: "Read ?env B' A' ''server'' = Some ((s, None), B'', A'')"
    by (auto split: option.splits prod.splits)
  have "s = ?payload"
    using w r by (rule Write_then_Read_returns_payload) (simp_all add: MSG_SIZE_85)
  with w r show ?thesis
    by simp
qed

end
